theory Spec2Isabelle
  imports Complex_Main "HOL-Library.Sublist" "HOL-Library.Code_Target_Nat"
begin
section \<open>Strings and numbers of the source language\<close>

text \<open>
  The repository is TypeScript. A source string is modelled as a \<^typ>\<open>string\<close>; a
  character is read as the code point of the same number, which covers ASCII and the
  accented Latin-1 letters that occur in the headers and tables of the source. A source
  number is an IEEE double. Where only the choice of cells and of branch matters (the
  totals, the ledger amounts, the locale parser) the model computes with exact rationals,
  and \<open>NaN\<close> is the value \<open>None\<close> of \<^typ>\<open>rat option\<close>. Where a branch depends on
  the floating-point result itself (the tolerance test of the fee rate) the numbers are
  doubles, with their rounding, their infinities and \<open>NaN\<close>: the type \<open>jsnum\<close> below.
\<close>

definition isDigit :: "char \<Rightarrow> bool" where
  "isDigit c = (48 \<le> (of_char c :: nat) \<and> (of_char c :: nat) \<le> 57)"

definition digitVal :: "char \<Rightarrow> nat" where
  "digitVal c = of_char c - 48"

definition digitsVal :: "string \<Rightarrow> nat" where
  "digitsVal ds = foldl (\<lambda>a c. 10 * a + digitVal c) 0 ds"

text \<open>White space as \<open>String.prototype.trim\<close> and the regular expression class \<open>\s\<close>
  see it, within the code points of the model: tab, line feed, vertical tab, form feed,
  carriage return, space and the no-break space.\<close>

definition isWhite :: "char \<Rightarrow> bool" where
  "isWhite c = ((of_char c :: nat) \<in> {9, 10, 11, 12, 13, 32, 160})"

definition trim :: "string \<Rightarrow> string" where
  "trim s = rev (dropWhile isWhite (rev (dropWhile isWhite s)))"

text \<open>\<open>s.replace(',', '.')\<close> with a string pattern replaces the first occurrence only.\<close>

fun replaceFirst :: "char \<Rightarrow> char \<Rightarrow> string \<Rightarrow> string" where
  "replaceFirst a b [] = []"
| "replaceFirst a b (c # cs) = (if c = a then b # cs else c # replaceFirst a b cs)"

text \<open>
  \<open>parseFloat\<close>: skip leading white space, read an optional sign, then the longest
  prefix of the shape \<open>digits [. digits] [exponent]\<close> or \<open>. digits [exponent]\<close>; no digit
  at all gives \<open>NaN\<close>. This is the decimal the prefix denotes, as an exact rational:
  the literal \<open>Infinity\<close> and the range of a double are not part of it. They are added
  by \<open>parseFloatDouble\<close> below, which the reader of the fee column uses. The readers
  that stay with \<open>parseFloat\<close> feed rational totals, which have no value for a cell
  whose text reads \<open>Infinity\<close> (the cleaning of the gross and net columns keeps
  letters): such a cell is outside what the totals model.
\<close>

definition exponentPart :: "string \<Rightarrow> int" where
  "exponentPart r =
     (case r of
        [] \<Rightarrow> 0
      | c # r1 \<Rightarrow>
          if c = CHR ''e'' \<or> c = CHR ''E'' then
            (case r1 of
               [] \<Rightarrow> 0
             | d # r2 \<Rightarrow>
                 if d = CHR ''-'' then
                   (if takeWhile isDigit r2 = [] then 0 else - int (digitsVal (takeWhile isDigit r2)))
                 else if d = CHR ''+'' then int (digitsVal (takeWhile isDigit r2))
                 else int (digitsVal (takeWhile isDigit r1)))
          else 0)"

definition parseFloat :: "string \<Rightarrow> rat option" where
  "parseFloat s0 =
     (let s = dropWhile isWhite s0;
          neg = (s \<noteq> [] \<and> hd s = CHR ''-'');
          s1 = (if s \<noteq> [] \<and> (hd s = CHR ''-'' \<or> hd s = CHR ''+'') then tl s else s);
          ip = takeWhile isDigit s1;
          r1 = dropWhile isDigit s1;
          dot = (r1 \<noteq> [] \<and> hd r1 = CHR ''.'');
          fp = (if dot then takeWhile isDigit (tl r1) else []);
          r2 = (if dot then dropWhile isDigit (tl r1) else r1)
      in if ip = [] \<and> fp = [] then None
         else Some ((if neg then - 1 else 1)
                    * (of_nat (digitsVal ip) + of_nat (digitsVal fp) / 10 ^ length fp)
                    * 10 powi exponentPart r2))"

text \<open>\<open>x || 0\<close> on a number: \<open>NaN\<close> and zero give 0, anything else is kept.\<close>

definition orZero :: "rat option \<Rightarrow> rat" where
  "orZero x = (case x of None \<Rightarrow> 0 | Some v \<Rightarrow> v)"

subsection \<open>Doubles\<close>

text \<open>
  A number of the source as the engine holds it: \<open>NaN\<close>, an infinity, or a finite
  double, given by the rational it denotes. The sign of a zero is not kept; nothing below
  divides by zero or prints one.
\<close>

datatype jsnum = JNaN | JNum rat | JPosInf | JNegInf

text \<open>The number of binary digits of a positive integer, and with it
  the integer part of the binary logarithm of a positive rational.\<close>

function bitLength :: "int \<Rightarrow> int" where
  "bitLength n = (if n \<le> 0 then 0 else 1 + bitLength (n div 2))"
  by pat_completeness auto
termination by (relation "measure nat") auto

declare bitLength.simps [simp del]

definition floorLog2 :: "rat \<Rightarrow> int" where
  "floorLog2 x =
     (if 1 \<le> x then bitLength \<lfloor>x\<rfloor> - 1
      else let f = - bitLength \<lceil>1 / x\<rceil> in if 2 powi (f + 1) \<le> x then f + 1 else f)"

text \<open>Rounding to the nearest integer, a tie going to the even one.\<close>

definition roundHalfEven :: "rat \<Rightarrow> int" where
  "roundHalfEven m =
     (let n = \<lfloor>m\<rfloor>; r = m - of_int n in
      if r < 1 / 2 then n else if 1 / 2 < r then n + 1 else if even n then n else n + 1)"

text \<open>
  The double nearest to a rational, as IEEE 754 rounds (to nearest, ties to even): 53
  significant binary digits, the unit in the last place never below 2 to the power -1074
  (subnormal numbers, and 0 below half of that), and an infinity when the rounded
  magnitude reaches 2 to the power 1024.
\<close>

definition toDouble :: "rat \<Rightarrow> jsnum" where
  "toDouble x =
     (if x = 0 then JNum 0
      else
        let a = \<bar>x\<bar>;
            e = max (floorLog2 a - 52) (- 1074);
            v = of_int (roundHalfEven (a / 2 powi e)) * 2 powi e
        in if 2 ^ 1024 \<le> v then (if 0 < x then JPosInf else JNegInf)
           else JNum (if 0 < x then v else - v))"

text \<open>The operations the fee rate uses: \<open>a + b\<close>, \<open>a - b\<close>, \<open>Math.abs\<close>, \<open>a < b\<close>,
  and the division of a sum by the length of a non-empty array. Each finite result is
  the exact one, rounded.\<close>

fun jsAdd :: "jsnum \<Rightarrow> jsnum \<Rightarrow> jsnum" where
  "jsAdd (JNum x) (JNum y) = toDouble (x + y)"
| "jsAdd JNaN b = JNaN"
| "jsAdd a JNaN = JNaN"
| "jsAdd JPosInf JNegInf = JNaN"
| "jsAdd JNegInf JPosInf = JNaN"
| "jsAdd JPosInf b = JPosInf"
| "jsAdd a JPosInf = JPosInf"
| "jsAdd JNegInf b = JNegInf"
| "jsAdd a JNegInf = JNegInf"

fun jsNeg :: "jsnum \<Rightarrow> jsnum" where
  "jsNeg (JNum x) = JNum (- x)"
| "jsNeg JPosInf = JNegInf"
| "jsNeg JNegInf = JPosInf"
| "jsNeg JNaN = JNaN"

definition jsSub :: "jsnum \<Rightarrow> jsnum \<Rightarrow> jsnum" where
  "jsSub a b = jsAdd a (jsNeg b)"

fun jsAbs :: "jsnum \<Rightarrow> jsnum" where
  "jsAbs (JNum x) = JNum \<bar>x\<bar>"
| "jsAbs JNegInf = JPosInf"
| "jsAbs a = a"

fun jsLess :: "jsnum \<Rightarrow> jsnum \<Rightarrow> bool" where
  "jsLess (JNum x) (JNum y) = (x < y)"
| "jsLess JNaN b = False"
| "jsLess a JNaN = False"
| "jsLess JNegInf JNegInf = False"
| "jsLess JNegInf b = True"
| "jsLess a JNegInf = False"
| "jsLess JPosInf b = False"
| "jsLess a JPosInf = True"

definition jsDivByLength :: "jsnum \<Rightarrow> nat \<Rightarrow> jsnum" where
  "jsDivByLength a n = (case a of JNum x \<Rightarrow> toDouble (x / of_nat n) | _ \<Rightarrow> a)"

text \<open>\<open>parseFloat\<close> with its full range: after the white space and the sign, the
  literal \<open>Infinity\<close> gives an infinity; otherwise the result is the double nearest to
  the decimal read, which is an infinity when the decimal is too large.\<close>

definition parseFloatDouble :: "string \<Rightarrow> jsnum" where
  "parseFloatDouble s0 =
     (let s = dropWhile isWhite s0;
          neg = (s \<noteq> [] \<and> hd s = CHR ''-'');
          s1 = (if s \<noteq> [] \<and> (hd s = CHR ''-'' \<or> hd s = CHR ''+'') then tl s else s)
      in if prefix ''Infinity'' s1 then (if neg then JNegInf else JPosInf)
         else (case parseFloat s0 of None \<Rightarrow> JNaN | Some v \<Rightarrow> toDouble v))"

section \<open>Locale numeric parser (\<open>parseValorBrasileiro\<close>)\<close>

text \<open>The class \<open>[^\d,.-]\<close> removes every character that is not a digit, a comma, a dot
  or a minus sign.\<close>

definition keepNumeric :: "char \<Rightarrow> bool" where
  "keepNumeric c = (isDigit c \<or> c = CHR '','' \<or> c = CHR ''.'' \<or> c = CHR ''-'')"



text \<open>For comparison, the numeric reading \<open>parseSpreadsheetToSales\<close> applies to a cell of
  a row, \<open>parseFloat(String(v).replace(/[^\d,.-]/g, '').replace(',', '.')) || 0\<close>: it does
  not go through \<open>parseValorBrasileiro\<close> and does not strip the dots.\<close>

definition parseSalesNumber :: "string \<Rightarrow> rat" where
  "parseSalesNumber v = orZero (parseFloat (replaceFirst (CHR '','') (CHR ''.'') (filter keepNumeric v)))"


section \<open>Column mapper (\<open>normalizeColumnName\<close>, \<open>FIELD_MAPPINGS\<close>, \<open>findColumnIndex\<close>)\<close>

text \<open>\<open>toLowerCase\<close> on the code points of the model: A to Z, and the Latin-1 capitals
  (192 to 222, the multiplication sign 215 apart), move up by 32.\<close>

definition toLowerChar :: "char \<Rightarrow> char" where
  "toLowerChar c =
     (let n = (of_char c :: nat) in
      if (65 \<le> n \<and> n \<le> 90) \<or> (192 \<le> n \<and> n \<le> 222 \<and> n \<noteq> 215)
      then char_of (n + 32) else c)"

text \<open>\<open>normalize('NFD')\<close> followed by the removal of the combining marks U+0300 to
  U+036F: a letter with a canonical decomposition loses its accent; every other code point
  of the model stays.\<close>

definition stripAccent :: "char \<Rightarrow> char" where
  "stripAccent c =
     (let n = (of_char c :: nat) in
      if 192 \<le> n \<and> n \<le> 197 then CHR ''A''
      else if n = 199 then CHR ''C''
      else if 200 \<le> n \<and> n \<le> 203 then CHR ''E''
      else if 204 \<le> n \<and> n \<le> 207 then CHR ''I''
      else if n = 209 then CHR ''N''
      else if 210 \<le> n \<and> n \<le> 214 then CHR ''O''
      else if 217 \<le> n \<and> n \<le> 220 then CHR ''U''
      else if n = 221 then CHR ''Y''
      else if 224 \<le> n \<and> n \<le> 229 then CHR ''a''
      else if n = 231 then CHR ''c''
      else if 232 \<le> n \<and> n \<le> 235 then CHR ''e''
      else if 236 \<le> n \<and> n \<le> 239 then CHR ''i''
      else if n = 241 then CHR ''n''
      else if 242 \<le> n \<and> n \<le> 246 then CHR ''o''
      else if 249 \<le> n \<and> n \<le> 252 then CHR ''u''
      else if n = 253 \<or> n = 255 then CHR ''y''
      else c)"

definition normalizeColumnName :: "string \<Rightarrow> string" where
  "normalizeColumnName name = map stripAccent (trim (map toLowerChar name))"

text \<open>The accented letters of the table: a-acute, a-tilde, c-cedilla, u-acute.\<close>

definition aacute :: char where "aacute = CHR 0xE1"
definition atilde :: char where "atilde = CHR 0xE3"
definition ccedil :: char where "ccedil = CHR 0xE7"
definition uacute :: char where "uacute = CHR 0xFA"

text \<open>\<open>FIELD_MAPPINGS\<close> in the order of the object literal, which is the order
  \<open>Object.entries\<close> walks it in.\<close>

definition FIELD_MAPPINGS :: "(string \<times> string) list" where
  "FIELD_MAPPINGS =
   [(''data da venda'', ''dataVenda''),
    (''data venda'', ''dataVenda''),
    (''data'', ''dataVenda''),
    (''data de venda'', ''dataVenda''),
    (''date'', ''dataVenda''),
    (''hora da venda'', ''horaVenda''),
    (''hora venda'', ''horaVenda''),
    (''hora'', ''horaVenda''),
    (''hora de venda'', ''horaVenda''),
    (''time'', ''horaVenda''),
    (''hor'' @ [aacute] @ ''rio'', ''horaVenda''),
    (''estabelecimento'', ''estabelecimento''),
    (''loja'', ''estabelecimento''),
    (''store'', ''estabelecimento''),
    (''nome estabelecimento'', ''estabelecimento''),
    (''cpf/cnpj'', ''cpfCnpj''),
    (''cpf cnpj'', ''cpfCnpj''),
    (''cpf'', ''cpfCnpj''),
    (''cnpj'', ''cpfCnpj''),
    (''cpf/cnpj do estabelecimento'', ''cpfCnpj''),
    (''cpf cnpj estabelecimento'', ''cpfCnpj''),
    (''forma de pagamento'', ''formaPagamento''),
    (''forma pagamento'', ''formaPagamento''),
    (''pagamento'', ''formaPagamento''),
    (''payment'', ''formaPagamento''),
    (''tipo pagamento'', ''formaPagamento''),
    (''quantidade total de parcelas'', ''quantidadeParcelas''),
    (''quantidade parcelas'', ''quantidadeParcelas''),
    (''parcelas'', ''quantidadeParcelas''),
    (''qtd parcelas'', ''quantidadeParcelas''),
    (''total parcelas'', ''quantidadeParcelas''),
    (''installments'', ''quantidadeParcelas''),
    (''bandeira'', ''bandeira''),
    (''bandeira cart'' @ [atilde] @ ''o'', ''bandeira''),
    (''cart'' @ [atilde] @ ''o'', ''bandeira''),
    (''card'', ''bandeira''),
    (''brand'', ''bandeira''),
    (''valor bruto'', ''valorBruto''),
    (''valor'', ''valorBruto''),
    (''bruto'', ''valorBruto''),
    (''total'', ''valorBruto''),
    (''status da venda'', ''statusVenda''),
    (''status venda'', ''statusVenda''),
    (''status'', ''statusVenda''),
    (''status de venda'', ''statusVenda''),
    (''situa'' @ [ccedil, atilde] @ ''o'', ''statusVenda''),
    (''tipo de lan'' @ [ccedil] @ ''amento'', ''tipoLancamento''),
    (''tipo lan'' @ [ccedil] @ ''amento'', ''tipoLancamento''),
    (''tipo lancamento'', ''tipoLancamento''),
    (''lan'' @ [ccedil] @ ''amento'', ''tipoLancamento''),
    (''lancamento'', ''tipoLancamento''),
    (''data do lan'' @ [ccedil] @ ''amento'', ''dataLancamento''),
    (''data lan'' @ [ccedil] @ ''amento'', ''dataLancamento''),
    (''data lancamento'', ''dataLancamento''),
    (''data de lan'' @ [ccedil] @ ''amento'', ''dataLancamento''),
    (''n'' @ [uacute] @ ''mero da m'' @ [aacute] @ ''quina'', ''numeroMaquina''),
    (''numero da maquina'', ''numeroMaquina''),
    (''n'' @ [uacute] @ ''mero m'' @ [aacute] @ ''quina'', ''numeroMaquina''),
    (''numero maquina'', ''numeroMaquina''),
    (''num m'' @ [aacute] @ ''quina'', ''numeroMaquina''),
    (''num maquina'', ''numeroMaquina''),
    (''m'' @ [aacute] @ ''quina'', ''numeroMaquina''),
    (''maquina'', ''numeroMaquina'')]"

text \<open>\<open>Array.prototype.findIndex\<close>, with \<open>None\<close> for \<open>-1\<close>, and
  \<open>String.prototype.includes\<close>.\<close>

fun findIndex :: "('a \<Rightarrow> bool) \<Rightarrow> 'a list \<Rightarrow> nat option" where
  "findIndex P [] = None"
| "findIndex P (x # xs) = (if P x then Some 0 else map_option Suc (findIndex P xs))"

fun startsWith :: "string \<Rightarrow> string \<Rightarrow> bool" where
  "startsWith s [] = True"
| "startsWith [] (c # cs) = False"
| "startsWith (x # xs) (c # cs) = (x = c \<and> startsWith xs cs)"

fun includesStr :: "string \<Rightarrow> string \<Rightarrow> bool" where
  "includesStr [] sub = (sub = [])"
| "includesStr (x # xs) sub = (startsWith (x # xs) sub \<or> includesStr xs sub)"

text \<open>The loop over \<open>Object.entries(FIELD_MAPPINGS)\<close>: the first entry mapped to the
  field whose key is the normalised form of some header decides.\<close>

fun findMapped :: "(string \<times> string) list \<Rightarrow> string list \<Rightarrow> string \<Rightarrow> nat option" where
  "findMapped [] headers fieldName = None"
| "findMapped ((key, mappedField) # rest) headers fieldName =
     (if mappedField = fieldName then
        (case findIndex (\<lambda>h. normalizeColumnName h = key) headers of
           Some mappedIndex \<Rightarrow> Some mappedIndex
         | None \<Rightarrow> findMapped rest headers fieldName)
      else findMapped rest headers fieldName)"

definition findColumnIndex :: "string list \<Rightarrow> string \<Rightarrow> nat option" where
  "findColumnIndex headers fieldName =
     (case findIndex (\<lambda>h. normalizeColumnName h = fieldName) headers of
        Some exactIndex \<Rightarrow> Some exactIndex
      | None \<Rightarrow>
          (case findMapped FIELD_MAPPINGS headers fieldName of
             Some mappedIndex \<Rightarrow> Some mappedIndex
           | None \<Rightarrow>
               findIndex (\<lambda>h. includesStr (normalizeColumnName h) (normalizeColumnName fieldName)
                             \<or> includesStr (normalizeColumnName fieldName) (normalizeColumnName h))
                 headers))"

text \<open>
  The resolution order as the specification words it (section 4.2), for comparison
  with \<open>findColumnIndex\<close>: step 1 and step 2 compare case- and accent-insensitively,
  that is, with both sides normalised.
\<close>

fun findMappedSpec :: "(string \<times> string) list \<Rightarrow> string list \<Rightarrow> string \<Rightarrow> nat option" where
  "findMappedSpec [] headers fieldName = None"
| "findMappedSpec ((key, mappedField) # rest) headers fieldName =
     (if mappedField = fieldName then
        (case findIndex (\<lambda>h. normalizeColumnName h = normalizeColumnName key) headers of
           Some mappedIndex \<Rightarrow> Some mappedIndex
         | None \<Rightarrow> findMappedSpec rest headers fieldName)
      else findMappedSpec rest headers fieldName)"

definition resolveSpec :: "string list \<Rightarrow> string \<Rightarrow> nat option" where
  "resolveSpec headers fieldName =
     (case findIndex (\<lambda>h. normalizeColumnName h = normalizeColumnName fieldName) headers of
        Some exactIndex \<Rightarrow> Some exactIndex
      | None \<Rightarrow>
          (case findMappedSpec FIELD_MAPPINGS headers fieldName of
             Some mappedIndex \<Rightarrow> Some mappedIndex
           | None \<Rightarrow>
               findIndex (\<lambda>h. includesStr (normalizeColumnName h) (normalizeColumnName fieldName)
                             \<or> includesStr (normalizeColumnName fieldName) (normalizeColumnName h))
                 headers))"

section \<open>Metrics aggregator (\<open>calculateSpreadsheetMetrics\<close>)\<close>

text \<open>
  A cell of a raw row is \<open>undefined\<close> (the row has no such key), \<open>null\<close>, a number or
  a string; a row is the list of its keys and cells, in the order of the object.
\<close>

datatype cell = CUndefined | CNull | CNum rat | CStr string

type_synonym row = "(string \<times> cell) list"

definition rowGet :: "row \<Rightarrow> string \<Rightarrow> cell" where
  "rowGet r h = (case map_of r h of None \<Rightarrow> CUndefined | Some v \<Rightarrow> v)"

text \<open>\<open>row[h] !== undefined && row[h] !== null && row[h] !== ''\<close>\<close>

definition cellPresent :: "cell \<Rightarrow> bool" where
  "cellPresent c = (c \<noteq> CUndefined \<and> c \<noteq> CNull \<and> c \<noteq> CStr [])"

datatype sheetType = Monthly | Daily

text \<open>\<open>SpreadsheetData\<close>. The derived \<open>sales\<close> list is kept as its length only; the
  file blob and the description are left out. No property below reads them.\<close>

record SpreadsheetData =
  sid :: "string option"
  customerId :: string
  terminalId :: "string option"
  fileName :: string
  uploadedAt :: string
  referenceMonth :: string
  referenceDate :: "string option"
  stype :: "sheetType option"
  sdata :: "row list"
  headers :: "string list"
  salesCount :: nat

text \<open>\<open>SpreadsheetMetrics\<close>, the numeric totals. The categorical counts (unique
  merchants, payment methods, card brands, instalments, status counts) are computed after
  the totals and never feed back into them; they are not modelled.\<close>

record SpreadsheetMetrics =
  totalLinhas :: nat
  totalColunas :: nat
  totalVendas :: rat
  valorBrutoTotal :: rat
  valorLiquidoTotal :: rat
  taxaMedia :: rat

text \<open>The header searches. \<open>headers.find(p)\<close> gives the first header that satisfies
  \<open>p\<close>; none of the predicates holds of the empty header, so \<open>!header\<close> is exactly
  "not found".\<close>

definition orElse :: "'a option \<Rightarrow> 'a option \<Rightarrow> 'a option" where
  "orElse a b = (case a of None \<Rightarrow> b | Some x \<Rightarrow> Some x)"

definition findQuantidadeHeader :: "string list \<Rightarrow> string option" where
  "findQuantidadeHeader hs =
     orElse (find (\<lambda>h. let normalized = normalizeColumnName h in
                      normalized = ''quantidade de vendas'' \<or> normalized = ''quantidade vendas''
                      \<or> normalized = ''qtd vendas'') hs)
    (orElse (find (\<lambda>h. let normalized = normalizeColumnName h in
                      includesStr normalized ''quantidade'' \<and> includesStr normalized ''venda'') hs)
            (find (\<lambda>h. let normalized = normalizeColumnName h in
                      normalized = ''quantidade'' \<or> normalized = ''qtd'') hs))"

definition findValorBrutoHeader :: "string list \<Rightarrow> string option" where
  "findValorBrutoHeader hs =
     orElse (find (\<lambda>h. normalizeColumnName h = ''valor bruto'') hs)
    (orElse (find (\<lambda>h. let normalized = normalizeColumnName h in
                      includesStr normalized ''valor'' \<and> includesStr normalized ''bruto''
                      \<and> \<not> includesStr normalized ''liquido'') hs)
            (find (\<lambda>h. let normalized = normalizeColumnName h in
                      includesStr normalized ''valor'' \<and> \<not> includesStr normalized ''liquido''
                      \<and> \<not> includesStr normalized ''taxa'') hs))"

definition findValorLiquidoHeader :: "string list \<Rightarrow> string option" where
  "findValorLiquidoHeader hs =
     find (\<lambda>h. let normalized = normalizeColumnName h in
             normalized = ''valor liquido''
             \<or> normalized = ''valor l'' @ [CHR 0xED] @ ''quido''
             \<or> (includesStr normalized ''valor'' \<and> includesStr normalized ''liquido'')) hs"

definition findTaxaHeader :: "string list \<Rightarrow> string option" where
  "findTaxaHeader hs =
     orElse (find (\<lambda>h. let normalized = normalizeColumnName h in
                      normalized = ''taxa total''
                      \<or> (includesStr normalized ''taxa'' \<and> includesStr normalized ''total'')) hs)
    (orElse (find (\<lambda>h. normalizeColumnName h = ''taxa'') hs)
            (find (\<lambda>h. includesStr (normalizeColumnName h) ''taxa'') hs))"

text \<open>The three cell readers. A number is used as it is; a string is trimmed, cleaned
  and handed to \<open>parseFloat\<close>. (\<open>undefined\<close>, \<open>null\<close> and the empty string never reach
  a reader: the presence test comes first.)\<close>

definition parseQtdCell :: "cell \<Rightarrow> rat option" where
  "parseQtdCell c =
     (case c of
        CNum v \<Rightarrow> Some v
      | CStr s \<Rightarrow> parseFloat (replaceFirst (CHR '','') (CHR ''.'') (filter keepNumeric (trim s)))
      | _ \<Rightarrow> None)"

definition notCurrency :: "char \<Rightarrow> bool" where
  "notCurrency c = (c \<noteq> CHR ''R'' \<and> c \<noteq> CHR ''$'' \<and> \<not> isWhite c)"

definition parseValorCell :: "cell \<Rightarrow> rat option" where
  "parseValorCell c =
     (case c of
        CNum v \<Rightarrow> Some v
      | CStr s \<Rightarrow>
          (let valorStr = trim s in
           if CHR '','' \<in> set valorStr \<and> CHR ''.'' \<in> set valorStr then
             parseFloat (replaceFirst (CHR '','') (CHR ''.'')
                           (filter (\<lambda>c. c \<noteq> CHR ''.'') (filter notCurrency valorStr)))
           else if CHR '','' \<in> set valorStr then
             parseFloat (replaceFirst (CHR '','') (CHR ''.'') (filter notCurrency valorStr))
           else parseFloat (filter notCurrency valorStr))
      | _ \<Rightarrow> None)"

text \<open>The reader of the fee column gives a double: the tolerance test below is made on
  doubles. A number cell \<open>CNum v\<close> stands for the double nearest to \<open>v\<close> (a cell
  holding 5.01 holds the double nearest to 501/100); a text is trimmed, cleaned of
  \<open>%\<close> and white space, its first comma made a dot, and handed to \<open>parseFloat\<close>.\<close>

definition parseTaxaCell :: "cell \<Rightarrow> jsnum" where
  "parseTaxaCell c =
     (case c of
        CNum v \<Rightarrow> toDouble v
      | CStr s \<Rightarrow>
          parseFloatDouble (replaceFirst (CHR '','') (CHR ''.'')
                              (filter (\<lambda>c. c \<noteq> CHR ''%'' \<and> \<not> isWhite c) (trim s)))
      | _ \<Rightarrow> JNaN)"

text \<open>The values one pass of \<open>data.forEach\<close> reads from a column: the cells that are
  present and whose reading is not \<open>NaN\<close>, in row order.\<close>

definition columnValues :: "(cell \<Rightarrow> rat option) \<Rightarrow> string \<Rightarrow> row list \<Rightarrow> rat list" where
  "columnValues rd h rows =
     List.map_filter (\<lambda>r. if cellPresent (rowGet r h) then rd (rowGet r h) else None) rows"

definition columnSum :: "(cell \<Rightarrow> rat option) \<Rightarrow> string option \<Rightarrow> row list \<Rightarrow> rat" where
  "columnSum rd header rows =
     (case header of None \<Rightarrow> 0 | Some h \<Rightarrow> sum_list (columnValues rd h rows))"

text \<open>The list \<open>taxas\<close>: the readings of the cells of the fee column that are
  present, in row order, of which those with \<open>!isNaN(taxa) && taxa > 0\<close> are pushed.\<close>

definition taxasLidas :: "string \<Rightarrow> row list \<Rightarrow> jsnum list" where
  "taxasLidas h rows =
     filter (\<lambda>taxa. taxa \<noteq> JNaN \<and> jsLess (JNum 0) taxa)
       (map parseTaxaCell (filter cellPresent (map (\<lambda>r. rowGet r h) rows)))"

text \<open>\<open>taxas.every(t => Math.abs(t - primeiraTaxa) < 0.01)\<close>; the literal \<open>0.01\<close> is
  the double nearest to 1/100.\<close>

definition todasIguais :: "jsnum list \<Rightarrow> jsnum \<Rightarrow> bool" where
  "todasIguais taxas primeiraTaxa =
     list_all (\<lambda>t. jsLess (jsAbs (jsSub t primeiraTaxa)) (toDouble (1 / 100))) taxas"

text \<open>\<open>taxas.reduce((sum, t) => sum + t, 0) / taxas.length\<close>\<close>

definition mediaDasTaxas :: "jsnum list \<Rightarrow> jsnum" where
  "mediaDasTaxas taxas = jsDivByLength (foldl jsAdd (JNum 0) taxas) (length taxas)"

definition taxaDaPlanilha :: "jsnum list \<Rightarrow> jsnum" where
  "taxaDaPlanilha taxas =
     (case taxas of
        [] \<Rightarrow> JNum 0
      | primeiraTaxa # _ \<Rightarrow>
          if todasIguais taxas primeiraTaxa then primeiraTaxa else mediaDasTaxas taxas)"

text \<open>The value the source leaves in \<open>metrics.taxaMedia\<close>: the customer's configured
  rate (the result of \<open>getCustomerTax\<close>, \<open>None\<close> for \<open>null\<close>) when set, otherwise
  the rate of the sheet when a fee column is found, otherwise the initial 0.\<close>

definition taxaCalculada :: "rat option \<Rightarrow> SpreadsheetData \<Rightarrow> jsnum" where
  "taxaCalculada customerTax spreadsheet =
     (case customerTax of
        Some t \<Rightarrow> JNum t
      | None \<Rightarrow> (case findTaxaHeader (headers spreadsheet) of
                   None \<Rightarrow> JNum 0
                 | Some h \<Rightarrow> taxaDaPlanilha (taxasLidas h (sdata spreadsheet))))"

text \<open>The totals of \<open>SpreadsheetMetrics\<close> are rationals. A rate that is not finite (a
  fee cell whose text reads \<open>Infinity\<close>, or fee values whose sum exceeds the largest
  double) has no value among them; the record then holds 0 in its place, and what the
  source computes in that case is stated on \<open>taxaCalculada\<close>.\<close>

definition valorFinito :: "jsnum \<Rightarrow> rat" where
  "valorFinito x = (case x of JNum v \<Rightarrow> v | _ \<Rightarrow> 0)"

text \<open>A row has data when some value of it is neither \<open>null\<close>, \<open>undefined\<close> nor the
  empty string.\<close>

definition linhasComDados :: "row list \<Rightarrow> nat" where
  "linhasComDados rows = length (filter (\<lambda>r. list_ex (\<lambda>v. cellPresent v) (map snd r)) rows)"

text \<open>\<open>calculateSpreadsheetMetrics\<close>, with the customer's configured rate (the result of
  \<open>getCustomerTax\<close>, \<open>None\<close> for \<open>null\<close>) as an argument. The statements follow the
  source in order; each \<open>let\<close> is one assignment to the \<open>metrics\<close> object.\<close>

definition calculateSpreadsheetMetrics :: "rat option \<Rightarrow> SpreadsheetData \<Rightarrow> SpreadsheetMetrics" where
  "calculateSpreadsheetMetrics customerTax spreadsheet =
     (let rows = sdata spreadsheet;
          quantidadeHeader = findQuantidadeHeader (headers spreadsheet);
          valorBrutoHeader = findValorBrutoHeader (headers spreadsheet);
          valorLiquidoHeader = findValorLiquidoHeader (headers spreadsheet);
          vendas0 = columnSum parseQtdCell quantidadeHeader rows;
          bruto = columnSum parseValorCell valorBrutoHeader rows;
          liquido0 = columnSum parseValorCell valorLiquidoHeader rows;
          vendas1 = (if vendas0 = 0 \<and> quantidadeHeader = None then of_nat (length rows) else vendas0);
          taxa = valorFinito (taxaCalculada customerTax spreadsheet);
          liquido1 = (if (valorLiquidoHeader = None \<or> liquido0 = 0) \<and> 0 < bruto \<and> 0 < taxa
                      then bruto - bruto * (taxa / 100) else liquido0);
          vendas2 = (if vendas1 = 0 then of_nat (linhasComDados rows) else vendas1)
      in \<lparr> totalLinhas = length rows,
           totalColunas = length (headers spreadsheet),
           totalVendas = vendas2,
           valorBrutoTotal = bruto,
           valorLiquidoTotal = liquido1,
           taxaMedia = taxa \<rparr>)"



text \<open>Small sheets used as concrete inputs below: a quantity column holding two zeros,
  and fee columns holding 5, 0, 5; then 5, 0 and the text \<open>6,0 %\<close>; then the texts
  \<open>5\<close> and \<open>5,01\<close>, which are 0.01 apart as decimals and less than that as doubles;
  then 5 and the text \<open>Infinity\<close>.\<close>

definition sheetOf :: "string list \<Rightarrow> row list \<Rightarrow> SpreadsheetData" where
  "sheetOf hs rows =
     \<lparr> sid = None, customerId = ''c1'', terminalId = None, fileName = ''vendas.xlsx'',
       uploadedAt = ''2024-05-10T10:00:00.000Z'', referenceMonth = ''2024-05'',
       referenceDate = None, stype = Some Monthly, sdata = rows, headers = hs,
       salesCount = 0 \<rparr>"

definition zeroQtdSheet :: SpreadsheetData where
  "zeroQtdSheet = sheetOf [''Qtd Vendas''] [[(''Qtd Vendas'', CNum 0)], [(''Qtd Vendas'', CNum 0)]]"





section \<open>Transfer ledger (\<open>transferService\<close>)\<close>

text \<open>
  An error value: what a Supabase call returns in \<open>error\<close> or what a service throws.
  A function of the source that can throw returns \<open>error + result\<close> in the model.
\<close>

datatype error = SupabaseError string | ServiceError string

text \<open>\<open>Transfer\<close>, as the application sees a ledger entry.\<close>

record Transfer =
  transferId :: string
  periodo :: "string option"
  valorBruto :: rat
  taxas :: rat
  valorLiquido :: rat
  status :: string
  dataEnvio :: string
  transferCustomerId :: "string option"
  transferCustomerName :: "string option"
  createdAt :: string

text \<open>The columns \<open>transferToDb\<close> writes, and a row of the table \<open>transfers\<close>. The
  store is the external collaborator of the specification, a keyed record store: a row
  holds what was written to it.\<close>

record TransferColumns =
  t_periodo :: "string option"
  t_valor_bruto :: rat
  t_taxas :: rat
  t_valor_liquido :: rat
  t_status :: "string option"
  t_data_envio :: "string option"
  t_customer_id :: "string option"
  t_customer_name :: "string option"

record DbTransfer = TransferColumns +
  t_id :: string
  t_created_at :: "string option"

text \<open>\<open>/^\d{4}-\d{2}-\d{2}$/.test(s)\<close>, and the match of
  \<open>/^(\d{4})-(\d{2})-(\d{2})/\<close>: the three capture groups of the prefix, when the
  first ten characters have that shape.\<close>

definition isIsoDay :: "string \<Rightarrow> bool" where
  "isIsoDay s =
     (length s = 10 \<and> list_all isDigit (take 4 s) \<and> s ! 4 = CHR ''-''
      \<and> list_all isDigit (take 2 (drop 5 s)) \<and> s ! 7 = CHR ''-''
      \<and> list_all isDigit (take 2 (drop 8 s)))"

definition matchIsoDayPrefix :: "string \<Rightarrow> (string \<times> string \<times> string) option" where
  "matchIsoDayPrefix s =
     (if isIsoDay (take 10 s) then Some (take 4 s, take 2 (drop 5 s), take 2 (drop 8 s))
      else None)"

text \<open>\<open>x || d\<close> on an optional string: \<open>null\<close>, \<open>undefined\<close> and the empty string
  give the default.\<close>

definition orNull :: "string option \<Rightarrow> string option" where
  "orNull x = (case x of None \<Rightarrow> None | Some s \<Rightarrow> if s = [] then None else Some s)"

definition orDefault :: "string option \<Rightarrow> string \<Rightarrow> string" where
  "orDefault x d = (case orNull x of None \<Rightarrow> d | Some s \<Rightarrow> s)"

text \<open>
  \<open>normalizeDate\<close>. The JavaScript engine's part, \<open>new Date(s)\<close> read back with
  \<open>getFullYear\<close>, \<open>getMonth\<close> and \<open>getDate\<close> in the reader's time zone, is the
  parameter \<open>localDay\<close>: \<open>None\<close> for an invalid date, otherwise the local day as
  \<open>YYYY-MM-DD\<close>. (\<open>new Date\<close> does not throw on a string, so the \<open>catch\<close> branch is
  dead.)
\<close>

definition normalizeDate :: "(string \<Rightarrow> string option) \<Rightarrow> string option \<Rightarrow> string" where
  "normalizeDate localDay dateString =
     (case dateString of
        None \<Rightarrow> []
      | Some s \<Rightarrow>
          if trim s = [] then []
          else if isIsoDay s then s
          else (case localDay s of None \<Rightarrow> [] | Some d \<Rightarrow> d))"

definition dbToTransfer :: "(string \<Rightarrow> string option) \<Rightarrow> string \<Rightarrow> DbTransfer \<Rightarrow> Transfer" where
  "dbToTransfer localDay now dbTransfer =
     \<lparr> transferId = t_id dbTransfer,
       periodo = Some (orDefault (t_periodo dbTransfer) []),
       valorBruto = t_valor_bruto dbTransfer,
       taxas = t_taxas dbTransfer,
       valorLiquido = t_valor_liquido dbTransfer,
       status = orDefault (t_status dbTransfer) ''pendente'',
       dataEnvio = normalizeDate localDay (t_data_envio dbTransfer),
       transferCustomerId = orNull (t_customer_id dbTransfer),
       transferCustomerName = orNull (t_customer_name dbTransfer),
       createdAt = orDefault (t_created_at dbTransfer) now \<rparr>"

text \<open>\<open>transferToDb\<close>. \<open>dateMatch[1]\<close> is the first capture group of the match.\<close>

definition transferToDb :: "Transfer \<Rightarrow> TransferColumns" where
  "transferToDb transfer =
     (let dataEnvio =
            (if dataEnvio transfer \<noteq> [] \<and> trim (dataEnvio transfer) \<noteq> [] then
               (case matchIsoDayPrefix (dataEnvio transfer) of
                  Some (g1, g2, g3) \<Rightarrow> Some (g1 @ ''T12:00:00.000Z'')
                | None \<Rightarrow> None)
             else None)
      in \<lparr> t_periodo = orNull (periodo transfer),
           t_valor_bruto = valorBruto transfer,
           t_taxas = taxas transfer,
           t_valor_liquido = valorLiquido transfer,
           t_status = Some (orDefault (Some (status transfer)) ''pendente''),
           t_data_envio = dataEnvio,
           t_customer_id = orNull (transferCustomerId transfer),
           t_customer_name = orNull (transferCustomerName transfer) \<rparr>)"

text \<open>A transfer to be sent on a given day, for the date round trip.\<close>

definition transferOn :: "string \<Rightarrow> Transfer" where
  "transferOn day =
     \<lparr> transferId = ''t1'', periodo = Some ''15/03/2024'', valorBruto = 100, taxas = 51 / 10,
       valorLiquido = 949 / 10, status = ''pendente'', dataEnvio = day,
       transferCustomerId = Some ''c1'', transferCustomerName = Some ''Loja'',
       createdAt = ''2024-03-15T09:00:00.000Z'' \<rparr>"

text \<open>The date as the source's comments describe it (\<open>Extrair apenas a data YYYY-MM-DD\<close>,
  \<open>Salvar como meio-dia UTC\<close>): the whole matched day at noon UTC.\<close>

definition noonUtcSpec :: "string \<Rightarrow> string option" where
  "noonUtcSpec day =
     (case matchIsoDayPrefix day of
        Some (g1, g2, g3) \<Rightarrow> Some (g1 @ ''-'' @ g2 @ ''-'' @ g3 @ ''T12:00:00.000Z'')
      | None \<Rightarrow> None)"

section \<open>Saving a snapshot and reconciling the ledger (\<open>saveSpreadsheet\<close>,
  \<open>createTransferFromSpreadsheet\<close>)\<close>

text \<open>\<open>CustomerCardValues\<close>, the administrator's override of a period's cards; a field
  is \<open>None\<close> when it is \<open>undefined\<close> or \<open>null\<close>.\<close>

record CardValues =
  cv_quantidadeVendas :: "rat option"
  cv_valorBruto :: "rat option"
  cv_taxa :: "rat option"
  cv_valorLiquido :: "rat option"

text \<open>
  Everything the two functions obtain from outside the two service files is a field of
  the environment: the other services (\<open>getCustomerTax\<close>, \<open>getCustomerCardValues\<close>,
  \<open>getCustomers\<close>), each of which returns or throws; the errors the store answers a read or a write with (\<open>None\<close> when
  it succeeds); the clock and the random source behind the generated ids; and the
  JavaScript engine's date functions.
\<close>

record Env =
  getCustomerTax :: "string \<Rightarrow> error + rat option"
  getCustomerCardValues ::
    "string \<Rightarrow> string option \<Rightarrow> string \<Rightarrow> string option \<Rightarrow> sheetType \<Rightarrow> error + CardValues option"
  getCustomers :: "error + (string \<times> string) list"
  snapshotSelectError :: "error option"
  snapshotWriteError :: "error option"
  transfersSelectError :: "error option"
  transferByIdSelectError :: "error option"
  transferWriteError :: "TransferColumns \<Rightarrow> error option"
  dateNow :: string
  randomSuffix :: string
  isoNow :: string
  engineLocalDay :: "string \<Rightarrow> string option"
  toLocaleDateString :: "string \<Rightarrow> string"

subsection \<open>Ledger operations\<close>

text \<open>\<open>getTransfers\<close> answers a failed read with the empty list. The order of its
  result (by day sent) is not modelled: it only decides which of several entries of one
  period \<open>find\<close> meets first.\<close>

definition getTransfers :: "Env \<Rightarrow> DbTransfer list \<Rightarrow> Transfer list" where
  "getTransfers env ledger =
     (case transfersSelectError env of
        Some e \<Rightarrow> []
      | None \<Rightarrow> map (dbToTransfer (engineLocalDay env) (isoNow env)) ledger)"

text \<open>\<open>maybeSingle()\<close>: no row gives \<open>null\<close>, one row gives the row, several rows are
  an error, which every caller here treats as \<open>null\<close>.\<close>

definition maybeSingle :: "'a list \<Rightarrow> 'a option" where
  "maybeSingle rows = (case rows of [r] \<Rightarrow> Some r | _ \<Rightarrow> None)"

definition getTransferById :: "Env \<Rightarrow> string \<Rightarrow> DbTransfer list \<Rightarrow> Transfer option" where
  "getTransferById env i ledger =
     (case transferByIdSelectError env of
        Some e \<Rightarrow> None
      | None \<Rightarrow> map_option (dbToTransfer (engineLocalDay env) (isoNow env))
                 (maybeSingle (filter (\<lambda>r. t_id r = i) ledger)))"

definition insertedRow :: "string \<Rightarrow> string \<Rightarrow> TransferColumns \<Rightarrow> DbTransfer" where
  "insertedRow newId now c =
     \<lparr> t_periodo = t_periodo c, t_valor_bruto = t_valor_bruto c, t_taxas = t_taxas c,
       t_valor_liquido = t_valor_liquido c, t_status = t_status c,
       t_data_envio = t_data_envio c, t_customer_id = t_customer_id c,
       t_customer_name = t_customer_name c, t_id = newId, t_created_at = Some now \<rparr>"

definition updatedRow :: "TransferColumns \<Rightarrow> DbTransfer \<Rightarrow> DbTransfer" where
  "updatedRow c r =
     r\<lparr> t_periodo := t_periodo c, t_valor_bruto := t_valor_bruto c, t_taxas := t_taxas c,
        t_valor_liquido := t_valor_liquido c, t_status := t_status c,
        t_data_envio := t_data_envio c, t_customer_id := t_customer_id c,
        t_customer_name := t_customer_name c \<rparr>"

text \<open>\<open>createTransfer\<close> throws the store's error; a second row with an id already
  present violates the primary key.\<close>

definition createTransfer :: "Env \<Rightarrow> Transfer \<Rightarrow> DbTransfer list \<Rightarrow> error + (Transfer \<times> DbTransfer list)" where
  "createTransfer env transfer ledger =
     (let newId = ''transfer_'' @ dateNow env @ ''_'' @ randomSuffix env;
          dbData = transferToDb transfer
      in case transferWriteError env dbData of
           Some e \<Rightarrow> Inl e
         | None \<Rightarrow>
             if list_ex (\<lambda>r. t_id r = newId) ledger then Inl (SupabaseError ''duplicate key'')
             else Inr (dbToTransfer (engineLocalDay env) (isoNow env)
                         (insertedRow newId (isoNow env) dbData),
                       ledger @ [insertedRow newId (isoNow env) dbData]))"

text \<open>The fields of \<open>Partial<Transfer>\<close> a caller may set.\<close>

record TransferUpdates =
  u_valorBruto :: "rat option"
  u_taxas :: "rat option"
  u_valorLiquido :: "rat option"
  u_status :: "string option"
  u_dataEnvio :: "string option"

definition mergeUpdates :: "Transfer \<Rightarrow> TransferUpdates \<Rightarrow> Transfer" where
  "mergeUpdates current u =
     current\<lparr> valorBruto := (case u_valorBruto u of None \<Rightarrow> valorBruto current | Some v \<Rightarrow> v),
              taxas := (case u_taxas u of None \<Rightarrow> taxas current | Some v \<Rightarrow> v),
              valorLiquido := (case u_valorLiquido u of None \<Rightarrow> valorLiquido current | Some v \<Rightarrow> v),
              status := (case u_status u of None \<Rightarrow> status current | Some v \<Rightarrow> v),
              dataEnvio := (case u_dataEnvio u of None \<Rightarrow> dataEnvio current | Some v \<Rightarrow> v) \<rparr>"

text \<open>\<open>updateTransfer\<close> reads the entry back through \<open>dbToTransfer\<close>, merges the
  updates and writes every column again through \<open>transferToDb\<close>; a failure gives
  \<open>null\<close> and leaves the ledger as it was.\<close>

definition updateTransfer ::
  "Env \<Rightarrow> string \<Rightarrow> TransferUpdates \<Rightarrow> DbTransfer list \<Rightarrow> Transfer option \<times> DbTransfer list" where
  "updateTransfer env i updates ledger =
     (case getTransferById env i ledger of
        None \<Rightarrow> (None, ledger)
      | Some currentTransfer \<Rightarrow>
          (let dbData = transferToDb (mergeUpdates currentTransfer updates)
           in case transferWriteError env dbData of
                Some e \<Rightarrow> (None, ledger)
              | None \<Rightarrow>
                  (map_option (\<lambda>r. dbToTransfer (engineLocalDay env) (isoNow env) (updatedRow dbData r))
                     (maybeSingle (filter (\<lambda>r. t_id r = i) ledger)),
                   map (\<lambda>r. if t_id r = i then updatedRow dbData r else r) ledger)))"

subsection \<open>Period labels\<close>

fun splitOn :: "char \<Rightarrow> string \<Rightarrow> string list" where
  "splitOn c [] = [[]]"
| "splitOn c (x # xs) =
     (if x = c then [] # splitOn c xs
      else (case splitOn c xs of p # ps \<Rightarrow> (x # p) # ps | [] \<Rightarrow> [[x]]))"

text \<open>\<open>parseInt\<close> in base 10: leading white space, an optional sign, digits; \<open>None\<close> is
  \<open>NaN\<close>. (The \<open>0x\<close> prefix is not modelled.)\<close>

definition parseInt :: "string \<Rightarrow> int option" where
  "parseInt s0 =
     (let s = dropWhile isWhite s0;
          neg = (s \<noteq> [] \<and> hd s = CHR ''-'');
          s1 = (if s \<noteq> [] \<and> (hd s = CHR ''-'' \<or> hd s = CHR ''+'') then tl s else s);
          ds = takeWhile isDigit s1
      in if ds = [] then None
         else Some ((if neg then - 1 else 1) * int (digitsVal ds)))"

definition monthNames :: "string list" where
  "monthNames =
     [''Janeiro'', ''Fevereiro'', ''Mar'' @ [ccedil] @ ''o'', ''Abril'', ''Maio'', ''Junho'',
      ''Julho'', ''Agosto'', ''Setembro'', ''Outubro'', ''Novembro'', ''Dezembro'']"

text \<open>\<open>`${monthNames[parseInt(month) - 1]}/${year}`\<close> with
  \<open>[year, month] = referenceMonth.split('-')\<close>; an index outside the array, and a missing
  month, print as \<open>undefined\<close>.\<close>

definition periodoMensal :: "string \<Rightarrow> string" where
  "periodoMensal rm =
     (let parts = splitOn (CHR ''-'') rm;
          year = (case parts of [] \<Rightarrow> [] | y # _ \<Rightarrow> y);
          idx = (case parts of _ # m # _ \<Rightarrow> map_option (\<lambda>n. n - 1) (parseInt m) | _ \<Rightarrow> None);
          name = (case idx of
                    None \<Rightarrow> ''undefined''
                  | Some i \<Rightarrow> if 0 \<le> i \<and> i < 12 then monthNames ! nat i else ''undefined'')
      in name @ ''/'' @ year)"

definition periodoDiario :: "string \<Rightarrow> string" where
  "periodoDiario dateStr = take 2 (drop 8 dateStr) @ ''/'' @ take 2 (drop 5 dateStr) @ ''/'' @ take 4 dateStr"

definition isDailyWithDate :: "SpreadsheetData \<Rightarrow> bool" where
  "isDailyWithDate spreadsheet =
     (stype spreadsheet = Some Daily \<and> orNull (referenceDate spreadsheet) \<noteq> None)"

definition periodoParaBusca :: "Env \<Rightarrow> SpreadsheetData \<Rightarrow> string option" where
  "periodoParaBusca env spreadsheet =
     (if isDailyWithDate spreadsheet then
        (let dateStr = trim (orDefault (referenceDate spreadsheet) [])
         in if isIsoDay dateStr then Some (periodoDiario dateStr)
            else Some (toLocaleDateString env (orDefault (referenceDate spreadsheet) [])))
      else if referenceMonth spreadsheet \<noteq> [] then Some (periodoMensal (referenceMonth spreadsheet))
      else None)"

text \<open>The local day of a date string as \<open>`${year}-${month}-${day}`\<close>; an invalid date
  prints three times \<open>NaN\<close>.\<close>

definition localDayString :: "Env \<Rightarrow> string \<Rightarrow> string" where
  "localDayString env s = (case engineLocalDay env s of None \<Rightarrow> ''NaN-NaN-NaN'' | Some d \<Rightarrow> d)"

definition dataEnvioDaPlanilha :: "Env \<Rightarrow> SpreadsheetData \<Rightarrow> string" where
  "dataEnvioDaPlanilha env spreadsheet =
     (if isDailyWithDate spreadsheet then
        (let dateStr = trim (orDefault (referenceDate spreadsheet) [])
         in if isIsoDay dateStr then dateStr
            else localDayString env (orDefault (referenceDate spreadsheet) []))
      else if referenceMonth spreadsheet \<noteq> [] then
        (if uploadedAt spreadsheet \<noteq> [] then localDayString env (uploadedAt spreadsheet) else [])
      else [])"

subsection \<open>The reconciler\<close>

text \<open>The amounts of the ledger entry: the override's fields before the computed
  metrics, 5.10 percent of the gross amount as the fee of last resort.\<close>

definition positive :: "rat option \<Rightarrow> bool" where
  "positive x = (case x of None \<Rightarrow> False | Some v \<Rightarrow> 0 < v)"

definition positiveOr :: "rat option \<Rightarrow> rat \<Rightarrow> rat" where
  "positiveOr x d = (case x of None \<Rightarrow> d | Some v \<Rightarrow> if 0 < v then v else d)"

definition transferAmounts :: "CardValues option \<Rightarrow> SpreadsheetMetrics \<Rightarrow> rat \<times> rat \<times> rat" where
  "transferAmounts customValues metrics =
     (let cvBruto = (case customValues of None \<Rightarrow> None | Some c \<Rightarrow> cv_valorBruto c);
          cvTaxa = (case customValues of None \<Rightarrow> None | Some c \<Rightarrow> cv_taxa c);
          cvLiquido = (case customValues of None \<Rightarrow> None | Some c \<Rightarrow> cv_valorLiquido c);
          bruto = (case cvBruto of None \<Rightarrow> valorBrutoTotal metrics | Some v \<Rightarrow> v);
          fee = positiveOr cvTaxa
                  (if positive cvBruto then positiveOr cvBruto 0 * (51 / 1000)
                   else if 0 < taxaMedia metrics
                        then valorBrutoTotal metrics * (taxaMedia metrics / 100)
                   else valorBrutoTotal metrics * (51 / 1000));
          liquido = positiveOr cvLiquido (bruto - fee)
      in (bruto, fee, liquido))"

definition existingTransferFor :: "Env \<Rightarrow> SpreadsheetData \<Rightarrow> DbTransfer list \<Rightarrow> Transfer option" where
  "existingTransferFor env spreadsheet ledger =
     find (\<lambda>t. transferCustomerId t = Some (customerId spreadsheet)
                \<and> periodo t = periodoParaBusca env spreadsheet)
       (filter (\<lambda>t. transferCustomerId t = Some (customerId spreadsheet))
          (getTransfers env ledger))"

definition sheetTypeOrMonthly :: "sheetType option \<Rightarrow> sheetType" where
  "sheetTypeOrMonthly t = (case t of None \<Rightarrow> Monthly | Some x \<Rightarrow> x)"

definition createTransferFromSpreadsheet ::
  "Env \<Rightarrow> SpreadsheetData \<Rightarrow> DbTransfer list \<Rightarrow> error + DbTransfer list" where
  "createTransferFromSpreadsheet env spreadsheet ledger =
     (let existingTransfer = existingTransferFor env spreadsheet ledger in
      case getCustomerCardValues env (customerId spreadsheet) (terminalId spreadsheet)
             (referenceMonth spreadsheet) (referenceDate spreadsheet)
             (sheetTypeOrMonthly (stype spreadsheet)) of
        Inl e \<Rightarrow> Inl e
      | Inr customValues \<Rightarrow>
          (case getCustomerTax env (customerId spreadsheet) of
             Inl e \<Rightarrow> Inl e
           | Inr customerTax \<Rightarrow>
               (case transferAmounts customValues (calculateSpreadsheetMetrics customerTax spreadsheet) of
                  (bruto, fee, liquido) \<Rightarrow>
                    (case existingTransfer of
                       Some existing \<Rightarrow>
                         if 0 < bruto then
                           Inr (snd (updateTransfer env (transferId existing)
                                       \<lparr> u_valorBruto = Some bruto, u_taxas = Some fee,
                                         u_valorLiquido = Some liquido, u_status = None,
                                         u_dataEnvio = None \<rparr> ledger))
                         else Inr ledger
                     | None \<Rightarrow>
                         if bruto \<le> 0 then Inr ledger
                         else
                           (case getCustomers env of
                              Inl e \<Rightarrow> Inl e
                            | Inr customers \<Rightarrow>
                                (case createTransfer env
                                        \<lparr> transferId = [], periodo = periodoParaBusca env spreadsheet,
                                          valorBruto = bruto, taxas = fee, valorLiquido = liquido,
                                          status = ''pendente'',
                                          dataEnvio = dataEnvioDaPlanilha env spreadsheet,
                                          transferCustomerId = Some (customerId spreadsheet),
                                          transferCustomerName =
                                            Some (orDefault (map_of customers (customerId spreadsheet)) []),
                                          createdAt = [] \<rparr> ledger of
                                   Inl e \<Rightarrow> Inl e
                                 | Inr (newTransfer, ledger') \<Rightarrow> Inr ledger'))))))"

subsection \<open>The snapshot store and \<open>saveSpreadsheet\<close>\<close>

text \<open>A row of the table \<open>customer_spreadsheets\<close>, as \<open>spreadsheetToDb\<close> writes it.\<close>

record DbSpreadsheet =
  s_id :: "string option"
  s_customer_id :: string
  s_terminal_id :: "string option"
  s_file_name :: string
  s_uploaded_at :: string
  s_reference_month :: string
  s_reference_date :: "string option"
  s_type :: sheetType
  s_data :: "row list"
  s_headers :: "string list"
  s_sales :: nat

definition spreadsheetToDb :: "SpreadsheetData \<Rightarrow> DbSpreadsheet" where
  "spreadsheetToDb spreadsheet =
     \<lparr> s_id = sid spreadsheet,
       s_customer_id = customerId spreadsheet,
       s_terminal_id = orNull (terminalId spreadsheet),
       s_file_name = fileName spreadsheet,
       s_uploaded_at = uploadedAt spreadsheet,
       s_reference_month = referenceMonth spreadsheet,
       s_reference_date = orNull (referenceDate spreadsheet),
       s_type = sheetTypeOrMonthly (stype spreadsheet),
       s_data = sdata spreadsheet,
       s_headers = headers spreadsheet,
       s_sales = salesCount spreadsheet \<rparr>"

text \<open>
  The filters of the Supabase client. \<open>.eq(column, value)\<close> is sent as the URL filter
  \<open>column=eq.<value>\<close>, the value printed as text: it selects the rows whose column
  holds that text, so with the argument \<open>null\<close> it selects the rows holding the text
  \<open>null\<close> and never a row whose column is SQL \<open>NULL\<close>. \<open>.is(column, null)\<close> is the
  filter that selects the \<open>NULL\<close> rows; \<open>getSpreadsheetByCustomerId\<close>,
  \<open>getAvailableDays\<close>, \<open>getSpreadsheetByDate\<close> and \<open>deleteSpreadsheet\<close> use it for
  the sheets that have no terminal.
\<close>

definition eqFilter :: "string option \<Rightarrow> string option \<Rightarrow> bool" where
  "eqFilter column arg = (column = Some (case arg of None \<Rightarrow> ''null'' | Some v \<Rightarrow> v))"

definition isNullFilter :: "string option \<Rightarrow> bool" where
  "isNullFilter column = (column = None)"

definition typeName :: "sheetType \<Rightarrow> string" where
  "typeName t = (case t of Monthly \<Rightarrow> ''monthly'' | Daily \<Rightarrow> ''daily'')"

text \<open>\<open>getReferenceMonth\<close>: year and month of the local day.\<close>

definition getReferenceMonth :: "Env \<Rightarrow> string \<Rightarrow> string" where
  "getReferenceMonth env d =
     (case engineLocalDay env d of None \<Rightarrow> ''NaN-NaN'' | Some s \<Rightarrow> take (length s - 3) s)"

text \<open>The snapshot \<open>saveSpreadsheet\<close> builds from its argument (\<open>spreadsheetToSave\<close>).
  An absent \<open>referenceMonth\<close> is the empty string. When no sales come with the argument
  and there are rows, \<open>parseSpreadsheetToSales\<close> runs, which asks for the customer's
  rate first and may throw there; it yields one sale per row.\<close>

definition spreadsheetToSave :: "Env \<Rightarrow> SpreadsheetData \<Rightarrow> error + SpreadsheetData" where
  "spreadsheetToSave env spreadsheet =
     (let month = (if referenceMonth spreadsheet \<noteq> [] then referenceMonth spreadsheet
                   else getReferenceMonth env (uploadedAt spreadsheet));
          t = sheetTypeOrMonthly (stype spreadsheet);
          dateKey = orDefault (referenceDate spreadsheet) month;
          newId = ''spreadsheet_'' @ typeName t @ ''_'' @ customerId spreadsheet @ ''_''
                  @ orDefault (terminalId spreadsheet) ''general'' @ ''_'' @ dateKey @ ''_''
                  @ dateNow env
      in case (if 0 < salesCount spreadsheet then Inr (salesCount spreadsheet)
               else if sdata spreadsheet \<noteq> [] then
                 (case getCustomerTax env (customerId spreadsheet) of
                    Inl e \<Rightarrow> Inl e
                  | Inr customerTax \<Rightarrow> Inr (length (sdata spreadsheet)))
               else Inr 0) of
           Inl e \<Rightarrow> Inl e
         | Inr n \<Rightarrow>
             Inr (spreadsheet\<lparr> sid := Some newId, referenceMonth := month, stype := Some t,
                               salesCount := n \<rparr>))"

text \<open>The write of the snapshot: a monthly sheet replaces the row the lookup finds and
  is inserted when the lookup finds none; a daily sheet is always inserted. An error of
  the lookup is not read by the source (only \<open>data\<close> is), an error of the write is
  thrown.\<close>

definition existingMonthly :: "Env \<Rightarrow> SpreadsheetData \<Rightarrow> DbSpreadsheet list \<Rightarrow> DbSpreadsheet option" where
  "existingMonthly env sheet store =
     (case snapshotSelectError env of
        Some e \<Rightarrow> None
      | None \<Rightarrow>
          maybeSingle
            (filter (\<lambda>r. s_customer_id r = customerId sheet
                        \<and> eqFilter (s_terminal_id r) (orNull (terminalId sheet))
                        \<and> s_reference_month r = referenceMonth sheet
                        \<and> s_type r = Monthly) store))"

definition persistSnapshot :: "Env \<Rightarrow> SpreadsheetData \<Rightarrow> DbSpreadsheet list \<Rightarrow> error + DbSpreadsheet list" where
  "persistSnapshot env sheet store =
     (let dbData = spreadsheetToDb sheet in
      if sheetTypeOrMonthly (stype sheet) = Monthly then
        (case existingMonthly env sheet store of
           Some existing \<Rightarrow>
             (case snapshotWriteError env of
                Some e \<Rightarrow> Inl e
              | None \<Rightarrow> Inr (map (\<lambda>r. if s_id r = s_id existing then dbData else r) store))
         | None \<Rightarrow>
             (case snapshotWriteError env of
                Some e \<Rightarrow> Inl e
              | None \<Rightarrow> Inr (store @ [dbData])))
      else
        (case snapshotWriteError env of
           Some e \<Rightarrow> Inl e
         | None \<Rightarrow> Inr (store @ [dbData])))"

text \<open>\<open>saveSpreadsheet\<close> on the two tables: the snapshot is built and written, then the
  reconciler runs inside its own \<open>try\<close>, whose \<open>catch\<close> only logs.\<close>

definition saveSpreadsheet ::
  "Env \<Rightarrow> SpreadsheetData \<Rightarrow> DbSpreadsheet list \<times> DbTransfer list
     \<Rightarrow> error + (DbSpreadsheet list \<times> DbTransfer list)" where
  "saveSpreadsheet env spreadsheet st =
     (case spreadsheetToSave env spreadsheet of
        Inl e \<Rightarrow> Inl e
      | Inr sheet \<Rightarrow>
          (case persistSnapshot env sheet (fst st) of
             Inl e \<Rightarrow> Inl e
           | Inr store' \<Rightarrow>
               (case createTransferFromSpreadsheet env sheet (snd st) of
                  Inl transferError \<Rightarrow> Inr (store', snd st)
                | Inr ledger' \<Rightarrow> Inr (store', ledger'))))"

subsection \<open>Concrete inputs\<close>

text \<open>An environment in which every service and every store call succeeds: no
  configured rate, no override, one customer. Its engine answers are those of a
  JavaScript engine in the time zone of Brasilia (UTC-3) on the two date strings the
  examples below contain.\<close>

definition quietEnv :: Env where
  "quietEnv =
     \<lparr> getCustomerTax = (\<lambda>c. Inr None),
       getCustomerCardValues = (\<lambda>c t m d k. Inr None),
       getCustomers = Inr [(''c1'', ''Loja'')],
       snapshotSelectError = None,
       snapshotWriteError = None,
       transfersSelectError = None,
       transferByIdSelectError = None,
       transferWriteError = (\<lambda>c. None),
       dateNow = ''1715335200000'',
       randomSuffix = ''k3x9q2mzp'',
       isoNow = ''2024-05-10T10:00:00.000Z'',
       engineLocalDay = (\<lambda>s. if s = ''2024-05-10T10:00:00.000Z'' then Some ''2024-05-10''
                              else if s = ''2024T12:00:00.000Z'' then Some ''2024-01-01''
                              else None),
       toLocaleDateString = (\<lambda>s. s) \<rparr>"

text \<open>The same environment with a ledger that rejects every write, and with a rate
  service that throws.\<close>

definition ledgerDownEnv :: Env where
  "ledgerDownEnv = quietEnv\<lparr> transferWriteError := (\<lambda>c. Some (SupabaseError ''transfers unavailable'')) \<rparr>"

definition taxDownEnv :: Env where
  "taxDownEnv = quietEnv\<lparr> getCustomerTax := (\<lambda>c. Inl (ServiceError ''customer tax unavailable'')) \<rparr>"

text \<open>The same environment with a ledger whose \<open>data_envio\<close> column is a timestamp and
  refuses a text that is not one.\<close>

definition strictLedgerEnv :: Env where
  "strictLedgerEnv =
     quietEnv\<lparr> transferWriteError :=
       (\<lambda>c. if t_data_envio c = Some ''2024T12:00:00.000Z''
            then Some (SupabaseError ''invalid input syntax for type timestamp with time zone'')
            else None) \<rparr>"

text \<open>A monthly sheet of customer \<open>c1\<close> without terminal for May 2024, the row a first
  save of it left in the store, and the count of the monthly snapshots of a key.\<close>

definition maySheet :: SpreadsheetData where
  "maySheet = (sheetOf [''Valor Bruto''] [[(''Valor Bruto'', CNum 100)]])\<lparr> salesCount := 1 \<rparr>"

definition mayRow :: DbSpreadsheet where
  "mayRow = spreadsheetToDb (maySheet\<lparr> sid := Some ''spreadsheet_monthly_c1_general_2024-05_1715000000000'' \<rparr>)"

definition monthlyCount :: "string \<Rightarrow> string option \<Rightarrow> string \<Rightarrow> DbSpreadsheet list \<Rightarrow> nat" where
  "monthlyCount c t m store =
     length (filter (\<lambda>r. s_customer_id r = c \<and> s_terminal_id r = t \<and> s_reference_month r = m
                          \<and> s_type r = Monthly) store)"

text \<open>A daily sheet of customer \<open>c1\<close> for 15 March 2024 with a gross amount of 100, and
  the ledger entry of that day as an operator left it: sent, on 2024-03-15.\<close>

definition marchSheet :: SpreadsheetData where
  "marchSheet =
     (sheetOf [''Valor Bruto''] [[(''Valor Bruto'', CNum 100)]])
       \<lparr> referenceMonth := ''2024-03'', referenceDate := Some ''2024-03-15'', stype := Some Daily,
         salesCount := 1 \<rparr>"

definition marchEntry :: DbTransfer where
  "marchEntry =
     \<lparr> t_periodo = Some ''15/03/2024'', t_valor_bruto = 50, t_taxas = 51 / 20,
       t_valor_liquido = 949 / 20, t_status = Some ''enviado'',
       t_data_envio = Some ''2024-03-15'', t_customer_id = Some ''c1'',
       t_customer_name = Some ''Loja'', t_id = ''transfer_1710500000000_a1b2c3d4e'',
       t_created_at = Some ''2024-03-15T11:00:00.000Z'' \<rparr>"

text \<open>The snapshot \<open>saveSpreadsheet\<close> builds from the March sheet in these
  environments.\<close>

definition marchSaved :: SpreadsheetData where
  "marchSaved = marchSheet\<lparr> sid := Some ''spreadsheet_daily_c1_general_2024-03-15_1715335200000'' \<rparr>"

section \<open>Selection state of a view (\<open>CustomerSpreadsheet\<close>)\<close>

text \<open>
  One open view, that is one mounted instance of the component: the props that name its
  context (customer and terminal), its React state (type, selected month and day, the two
  lists, the snapshot shown) and its refs. An effect reads the props and state variables
  of the render that started it (its closure) and the refs as they are when it reads
  them; what the store answers is an argument. So an effect is a function of the state at
  its start (\<open>cap\<close>), of the fetched value, and of the state at the moment the answer
  arrives.
\<close>

record ViewState =
  propCustomerId :: string
  propTerminalId :: "string option"
  spreadsheetType :: sheetType
  selectedMonth :: string
  selectedDay :: string
  availableMonths :: "string list"
  availableDays :: "string list"
  spreadsheetData :: "SpreadsheetData option"
  userSelectedMonthRef :: bool
  userSelectedDayRef :: bool
  isInitialLoadRef :: bool
  lockSelectionRef :: bool
  lastSelectedDayRef :: string
  lastSelectedMonthRef :: string
  hasUserInteractedRef :: bool
  monthsLoadedRef :: bool
  daysLoadedRef :: bool

definition initialView :: ViewState where
  "initialView =
     \<lparr> propCustomerId = ''c1'', propTerminalId = None,
       spreadsheetType = Monthly, selectedMonth = [], selectedDay = [],
       availableMonths = [], availableDays = [], spreadsheetData = None,
       userSelectedMonthRef = False, userSelectedDayRef = False, isInitialLoadRef = True,
       lockSelectionRef = False, lastSelectedDayRef = [], lastSelectedMonthRef = [],
       hasUserInteractedRef = False, monthsLoadedRef = False, daysLoadedRef = False \<rparr>"

text \<open>\<open>xs.sort((a, b) => a.localeCompare(b))\<close> sorts the array in place, ascending; on
  period keys (digits and hyphens at fixed places) \<open>localeCompare\<close> is the order of the
  character codes. \<open>join(',')\<close> follows.\<close>

fun strLe :: "string \<Rightarrow> string \<Rightarrow> bool" where
  "strLe [] t = True"
| "strLe (a # s) [] = False"
| "strLe (a # s) (b # t) = ((of_char a :: nat) < of_char b \<or> (a = b \<and> strLe s t))"

fun insertAsc :: "string \<Rightarrow> string list \<Rightarrow> string list" where
  "insertAsc x [] = [x]"
| "insertAsc x (y # ys) = (if strLe x y then x # y # ys else y # insertAsc x ys)"

definition sortAsc :: "string list \<Rightarrow> string list" where
  "sortAsc xs = foldr insertAsc xs []"

fun joinComma :: "string list \<Rightarrow> string" where
  "joinComma [] = []"
| "joinComma [x] = x"
| "joinComma (x # y # ys) = x @ '','' @ joinComma (y # ys)"

definition updateSpreadsheetData :: "SpreadsheetData option \<Rightarrow> ViewState \<Rightarrow> ViewState" where
  "updateSpreadsheetData d st = st\<lparr> spreadsheetData := d \<rparr>"

definition showsDay :: "ViewState \<Rightarrow> string \<Rightarrow> bool" where
  "showsDay st day =
     (case spreadsheetData st of None \<Rightarrow> False | Some d \<Rightarrow> referenceDate d = Some day)"

subsection \<open>The effects\<close>

text \<open>The list update both month branches share: the fetched list, sorted in place, is
  stored when its joined text differs from that of the list the closure holds.\<close>

definition storeMonths :: "ViewState \<Rightarrow> string list \<Rightarrow> ViewState \<Rightarrow> ViewState" where
  "storeMonths cap months st =
     (if joinComma (sortAsc months) \<noteq> joinComma (sortAsc (availableMonths cap))
      then st\<lparr> availableMonths := sortAsc months \<rparr> else st)"

definition storeDays :: "ViewState \<Rightarrow> string list \<Rightarrow> ViewState \<Rightarrow> ViewState" where
  "storeDays cap days st =
     (if joinComma (sortAsc days) \<noteq> joinComma (sortAsc (availableDays cap))
      then st\<lparr> availableDays := sortAsc days \<rparr> else st)"

text \<open>The automatic selection inside \<open>loadMonths\<close>: \<open>months[0]\<close> of the array as it
  is by then.\<close>

definition autoSelectMonth :: "ViewState \<Rightarrow> string list \<Rightarrow> ViewState \<Rightarrow> ViewState" where
  "autoSelectMonth cap months st =
     (if months \<noteq> [] \<and> \<not> lockSelectionRef st \<and> \<not> hasUserInteractedRef st then
        (if selectedMonth cap = [] \<and> isInitialLoadRef st then
           st\<lparr> selectedMonth := hd (sortAsc months), lastSelectedMonthRef := hd (sortAsc months),
               isInitialLoadRef := False \<rparr>
         else st)
      else st)"

definition clearDays :: "ViewState \<Rightarrow> ViewState" where
  "clearDays st =
     (if \<not> lockSelectionRef st \<and> \<not> hasUserInteractedRef st then
        (if \<not> userSelectedDayRef st then st\<lparr> availableDays := [], selectedDay := [] \<rparr>
         else st\<lparr> availableDays := [] \<rparr>)
      else st)"

text \<open>The effect keyed on type, customer and terminal.\<close>

definition monthsEffect :: "ViewState \<Rightarrow> string list \<Rightarrow> ViewState \<Rightarrow> ViewState" where
  "monthsEffect cap months st =
     (if hasUserInteractedRef cap then storeMonths cap months st
      else if lockSelectionRef cap then st
      else
        (let st1 = storeMonths cap months (st\<lparr> monthsLoadedRef := True \<rparr>) in
         if spreadsheetType cap = Monthly then autoSelectMonth cap months (clearDays st1)
         else autoSelectMonth cap months st1))"

text \<open>The effect keyed on the selected month; \<open>mounted\<close> is its \<open>isMounted\<close> flag when
  the answer arrives.\<close>

definition daysEffect :: "ViewState \<Rightarrow> bool \<Rightarrow> string list \<Rightarrow> ViewState \<Rightarrow> ViewState" where
  "daysEffect cap mounted days st =
     (if hasUserInteractedRef cap then
        (if spreadsheetType cap = Daily \<and> selectedMonth cap \<noteq> [] then storeDays cap days st
         else st)
      else if lockSelectionRef cap then st
      else if spreadsheetType cap = Daily \<and> selectedMonth cap \<noteq> [] then
        (if \<not> mounted then st\<lparr> daysLoadedRef := True \<rparr>
         else storeDays cap days (st\<lparr> daysLoadedRef := True \<rparr>))
      else if spreadsheetType cap = Daily then
        (if mounted \<and> \<not> lockSelectionRef st \<and> \<not> hasUserInteractedRef st
         then st\<lparr> availableDays := [] \<rparr> else st)
      else st)"

text \<open>The two effects that load the snapshot of the selected key.\<close>

definition monthlySnapshotEffect :: "ViewState \<Rightarrow> SpreadsheetData option \<Rightarrow> ViewState \<Rightarrow> ViewState" where
  "monthlySnapshotEffect cap d st =
     (if spreadsheetType cap = Monthly \<and> selectedMonth cap \<noteq> [] then updateSpreadsheetData d st
      else if spreadsheetType cap = Monthly then updateSpreadsheetData None st
      else st)"

definition dailySnapshotEffect ::
  "ViewState \<Rightarrow> bool \<Rightarrow> SpreadsheetData option \<Rightarrow> ViewState \<Rightarrow> ViewState" where
  "dailySnapshotEffect cap mounted d st =
     (if hasUserInteractedRef cap \<and> userSelectedDayRef cap then
        (if selectedDay cap \<noteq> [] \<and> showsDay cap (selectedDay cap) then st
         else if selectedDay cap \<noteq> [] \<and> selectedDay cap = lastSelectedDayRef cap then
           (case d of
              None \<Rightarrow> st
            | Some sheet \<Rightarrow>
                if referenceDate sheet = Some (selectedDay cap)
                   \<and> selectedDay cap = lastSelectedDayRef st
                then updateSpreadsheetData d st else st)
         else st)
      else if lockSelectionRef cap \<and> userSelectedDayRef cap then st
      else if spreadsheetType cap = Daily \<and> selectedDay cap \<noteq> [] then
        (if showsDay cap (selectedDay cap) then st
         else if \<not> mounted then st
         else if lockSelectionRef st \<and> userSelectedDayRef st
                 \<and> selectedDay cap \<noteq> lastSelectedDayRef st \<and> lastSelectedDayRef st \<noteq> [] then st
         else
           (case d of
              Some sheet \<Rightarrow>
                if referenceDate sheet = Some (selectedDay cap) then st\<lparr> spreadsheetData := d \<rparr>
                else st
            | None \<Rightarrow>
                if lockSelectionRef st \<and> userSelectedDayRef st then st
                else updateSpreadsheetData None st))
      else if spreadsheetType cap = Daily then
        (if mounted \<and> \<not> (lockSelectionRef st \<and> userSelectedDayRef st)
         then updateSpreadsheetData None st else st)
      else st)"

subsection \<open>Refresh cycles and operator actions\<close>

text \<open>A background refresh is one of the four effects coming back with what it fetched;
  each carries the closure it started with.\<close>

datatype refresh =
    MonthsLoaded ViewState "string list"
  | DaysLoaded ViewState bool "string list"
  | MonthlySnapshotLoaded ViewState "SpreadsheetData option"
  | DailySnapshotLoaded ViewState bool "SpreadsheetData option"

fun applyRefresh :: "ViewState \<Rightarrow> refresh \<Rightarrow> ViewState" where
  "applyRefresh st (MonthsLoaded cap months) = monthsEffect cap months st"
| "applyRefresh st (DaysLoaded cap mounted days) = daysEffect cap mounted days st"
| "applyRefresh st (MonthlySnapshotLoaded cap d) = monthlySnapshotEffect cap d st"
| "applyRefresh st (DailySnapshotLoaded cap mounted d) = dailySnapshotEffect cap mounted d st"

definition refreshCycles :: "refresh list \<Rightarrow> ViewState \<Rightarrow> ViewState" where
  "refreshCycles evs st = foldl applyRefresh st evs"

text \<open>The operator's selections: the month selector of the monthly and of the daily
  type, the day selector and the day buttons. Each marks the interaction before it sets
  the key; the snapshot it then loads is an argument.\<close>

datatype userAction =
    SelectMonthMonthly string "SpreadsheetData option"
  | SelectMonthDaily string
  | SelectDay string "SpreadsheetData option"
  | ClickDay string "SpreadsheetData option"

fun userSelect :: "userAction \<Rightarrow> ViewState \<Rightarrow> ViewState" where
  "userSelect (SelectMonthMonthly monthValue d) st =
     st\<lparr> hasUserInteractedRef := True, lockSelectionRef := True, userSelectedMonthRef := True,
         lastSelectedMonthRef := monthValue, selectedMonth := monthValue,
         spreadsheetData := (if monthValue \<noteq> [] then d else None) \<rparr>"
| "userSelect (SelectMonthDaily monthValue) st =
     (if \<not> userSelectedDayRef st then
        st\<lparr> hasUserInteractedRef := True, lockSelectionRef := True, userSelectedMonthRef := True,
            lastSelectedMonthRef := monthValue, selectedMonth := monthValue,
            selectedDay := [], lastSelectedDayRef := [] \<rparr>
      else
        st\<lparr> hasUserInteractedRef := True, lockSelectionRef := True, userSelectedMonthRef := True,
            lastSelectedMonthRef := monthValue, selectedMonth := monthValue \<rparr>)"
| "userSelect (SelectDay dayValue d) st =
     st\<lparr> hasUserInteractedRef := True, lockSelectionRef := True, userSelectedDayRef := True,
         lastSelectedDayRef := dayValue, selectedDay := dayValue,
         spreadsheetData := (if dayValue \<noteq> [] then d else None) \<rparr>"
| "userSelect (ClickDay day d) st =
     st\<lparr> hasUserInteractedRef := True, lockSelectionRef := True, userSelectedDayRef := True,
         lastSelectedDayRef := day, selectedDay := day, spreadsheetData := d \<rparr>"

subsection \<open>Changes of type and of context\<close>

text \<open>The type selector of the view's header: \<open>setSpreadsheetType\<close>,
  \<open>setSelectedMonth('')\<close>, \<open>setSelectedDay('')\<close>, and nothing else.\<close>

definition onTypeChange :: "sheetType \<Rightarrow> ViewState \<Rightarrow> ViewState" where
  "onTypeChange t st = st\<lparr> spreadsheetType := t, selectedMonth := [], selectedDay := [] \<rparr>"

text \<open>The type selector of the upload preview: \<open>setSpreadsheetType\<close> alone.\<close>

definition onPreviewTypeChange :: "sheetType \<Rightarrow> ViewState \<Rightarrow> ViewState" where
  "onPreviewTypeChange t st = st\<lparr> spreadsheetType := t \<rparr>"

text \<open>
  \<open>handleConfirmSave\<close>, on the path where a preview is open and every call succeeds.
  The sheet is saved with the type of the closure, \<open>referenceMonth || getCurrentMonth()\<close>
  as its month (\<open>savedMonth\<close>) and, when daily, the form's date as its day
  (\<open>finalReferenceDate\<close>). The lists are loaded again (days then months after a daily
  save, months after a monthly one); the saved key is selected when the loaded list has
  it, and the first loaded key otherwise; the saved sheet is shown; and after a monthly
  save the type is set to monthly. No ref is written.
\<close>

definition handleConfirmSave ::
  "ViewState \<Rightarrow> SpreadsheetData \<Rightarrow> string \<Rightarrow> string \<Rightarrow> string list \<Rightarrow> string list
   \<Rightarrow> ViewState \<Rightarrow> ViewState" where
  "handleConfirmSave cap previewData savedMonth finalReferenceDate days months st =
     (let spreadsheetToSave =
            previewData\<lparr> referenceMonth := savedMonth,
                         referenceDate := (if spreadsheetType cap = Daily
                                           then Some finalReferenceDate else None),
                         stype := Some (spreadsheetType cap) \<rparr>;
          month = (if savedMonth \<in> set months then savedMonth
                   else if months \<noteq> [] then hd months else selectedMonth st)
      in if spreadsheetType cap = Daily then
           st\<lparr> availableDays := days,
               selectedDay := (if finalReferenceDate \<noteq> [] \<and> finalReferenceDate \<in> set days
                               then finalReferenceDate
                               else if days \<noteq> [] then hd days else selectedDay st),
               availableMonths := months,
               selectedMonth := month,
               spreadsheetData := Some spreadsheetToSave \<rparr>
         else
           st\<lparr> availableMonths := months,
               selectedMonth := month,
               spreadsheetData := Some spreadsheetToSave,
               spreadsheetType := Monthly \<rparr>)"

text \<open>A change of customer or terminal reaches the view as new props. The instance stays
  mounted: its state and its refs are kept, and the effects keyed on the props run again
  (\<open>monthsEffect\<close>, with this state as closure and the months of the new context as
  answer). The component has no effect that clears the selection or a ref when a prop
  changes: besides the four above, one effect computes the metrics of the snapshot shown
  and one initialises the reference month and date of the upload form.\<close>

definition onContextChange :: "string \<Rightarrow> string option \<Rightarrow> ViewState \<Rightarrow> ViewState" where
  "onContextChange c t st = st\<lparr> propCustomerId := c, propTerminalId := t \<rparr>"

text \<open>Two states hold the same refs.\<close>

definition sameRefs :: "ViewState \<Rightarrow> ViewState \<Rightarrow> bool" where
  "sameRefs a b =
     (userSelectedMonthRef a = userSelectedMonthRef b
      \<and> userSelectedDayRef a = userSelectedDayRef b
      \<and> isInitialLoadRef a = isInitialLoadRef b
      \<and> lockSelectionRef a = lockSelectionRef b
      \<and> lastSelectedDayRef a = lastSelectedDayRef b
      \<and> lastSelectedMonthRef a = lastSelectedMonthRef b
      \<and> hasUserInteractedRef a = hasUserInteractedRef b
      \<and> monthsLoadedRef a = monthsLoadedRef b
      \<and> daysLoadedRef a = daysLoadedRef b)"

text \<open>Ten refresh cycles after the operator chose May 2024 in a view that had loaded
  May and April: month lists unchanged and changed, day lists, and snapshots, started
  from the state the operator left and from the states before it.\<close>

definition loadedView :: ViewState where
  "loadedView = monthsEffect initialView [''2024-05'', ''2024-04''] initialView"

definition mayView :: ViewState where
  "mayView = userSelect (SelectMonthMonthly ''2024-05'' None) loadedView"

definition tenCycles :: "refresh list" where
  "tenCycles =
     [MonthsLoaded mayView [''2024-05'', ''2024-04''],
      MonthsLoaded mayView [''2024-06'', ''2024-05'', ''2024-04''],
      MonthlySnapshotLoaded mayView None,
      MonthsLoaded loadedView [''2024-06'', ''2024-04''],
      DaysLoaded mayView True [''2024-06-02'', ''2024-06-01''],
      MonthsLoaded initialView [''2024-07''],
      MonthlySnapshotLoaded loadedView (Some maySheet),
      DailySnapshotLoaded mayView True None,
      MonthsLoaded mayView [],
      MonthsLoaded initialView [''2024-04'']]"

section \<open>Properties of the locale numeric parser\<close>

lemma isDigit_not_special [simp]:
  "\<not> isDigit (CHR '','')" "\<not> isDigit (CHR ''.'')" "\<not> isDigit (CHR ''-'')"
  "\<not> isDigit (CHR ''+'')"
  by (simp_all add: isDigit_def)







lemma exponentPart_Nil [simp]: "exponentPart [] = 0"
  by (simp add: exponentPart_def)
















text \<open>The reading inside \<open>parseSpreadsheetToSales\<close> is a different function: on the same
  Brazilian-formatted text it stops at the second dot.\<close>

lemma parseSalesNumber_stops_at_second_dot: "parseSalesNumber ''1.234,56'' = 1.234"
  by (simp add: parseSalesNumber_def keepNumeric_def isDigit_def parseFloat_def Let_def
      isWhite_def digitsVal_def digitVal_def exponentPart_def orZero_def)


section \<open>Properties of the column mapper\<close>

text \<open>
  Claim C8. The specification gives the resolution order as: exact match on the
  canonical name, then exact match on a synonym, both case- and accent-insensitive, then
  containment. \<open>findColumnIndex\<close> normalises the header but compares it with the field
  name and with the table key as written. A field name with a capital letter
  (\<open>valorBruto\<close>) therefore never matches in step 1, so a synonym (\<open>total\<close>) wins over
  a header that is the canonical name itself; and a table key with an accent
  (\<open>situacao\<close> written with its cedilla and tilde) never matches in step 2, so the
  header it was listed for is not resolved at all. The two inputs below show both, with \<open>resolveSpec\<close> as the
  specification's order.
\<close>

theorem findColumnIndex_unnormalised_comparisons:
  "findColumnIndex [''Total'', ''ValorBruto''] ''valorBruto'' = Some 0
   \<and> resolveSpec [''Total'', ''ValorBruto''] ''valorBruto'' = Some 1
   \<and> findColumnIndex [''Situa'' @ [ccedil, atilde] @ ''o''] ''statusVenda'' = None
   \<and> resolveSpec [''Situa'' @ [ccedil, atilde] @ ''o''] ''statusVenda'' = Some 0"
  by code_simp

text \<open>The part of the claim that holds whatever the headers are: the result is an index
  of the header list or null (\<open>None\<close>); the function has no failing branch.\<close>

lemma findIndex_bound: "findIndex P xs = Some i \<Longrightarrow> i < length xs"
  by (induction xs arbitrary: i) (auto split: if_splits)

lemma findMapped_bound: "findMapped m hs f = Some i \<Longrightarrow> i < length hs"
  by (induction m hs f rule: findMapped.induct)
     (auto split: if_splits option.splits dest: findIndex_bound)

lemma findColumnIndex_in_range: "findColumnIndex hs f = Some i \<Longrightarrow> i < length hs"
  unfolding findColumnIndex_def
  by (auto split: option.splits dest: findIndex_bound findMapped_bound)

section \<open>Properties of the metrics aggregator\<close>

lemma headers_zeroQtdSheet:
  "findQuantidadeHeader [''Qtd Vendas''] = Some ''Qtd Vendas''"
  "findValorBrutoHeader [''Qtd Vendas''] = None"
  "findValorLiquidoHeader [''Qtd Vendas''] = None"
  "findTaxaHeader [''Qtd Vendas''] = None"
  by code_simp+


lemmas column_eval =
  columnSum_def columnValues_def List.map_filter_def rowGet_def cellPresent_def

text \<open>
  Claim C4. With a quantity column found, the claim makes \<open>totalVendas\<close> the column's
  sum and nothing else. The source's last fallback (\<open>if (metrics.totalVendas === 0)\<close>)
  does not ask whether a quantity column was found, unlike the first one
  (\<open>totalVendas === 0 && !quantidadeHeader\<close>): on a column that sums to 0 it replaces
  the sum by the number of rows that hold data. Here the column is found, its sum is 0,
  and \<open>totalVendas\<close> is 2.
\<close>

theorem totalVendas_zero_sum_counts_rows:
  "findQuantidadeHeader (headers zeroQtdSheet) = Some ''Qtd Vendas''
   \<and> columnSum parseQtdCell (findQuantidadeHeader (headers zeroQtdSheet)) (sdata zeroQtdSheet) = 0
   \<and> totalVendas (calculateSpreadsheetMetrics None zeroQtdSheet) = 2"
  unfolding calculateSpreadsheetMetrics_def zeroQtdSheet_def sheetOf_def
  by (simp add: headers_zeroQtdSheet Let_def column_eval parseQtdCell_def linhasComDados_def)

text \<open>Where the column's sum is not 0, the sum stands.\<close>

lemma totalVendas_nonzero_sum:
  assumes "findQuantidadeHeader (headers sp) = Some h"
    and "sum_list (columnValues parseQtdCell h (sdata sp)) \<noteq> 0"
  shows "totalVendas (calculateSpreadsheetMetrics tax sp)
         = sum_list (columnValues parseQtdCell h (sdata sp))"
  using assms by (simp add: calculateSpreadsheetMetrics_def Let_def columnSum_def)

text \<open>The double model at work: a decimal that is no double is rounded, and a sum of
  doubles is rounded again (0.1 + 0.2 is the double just above 0.3).\<close>

lemma toDouble_examples:
  "toDouble (1 / 10) = JNum (3602879701896397 / 36028797018963968)"
  "toDouble (1 / 100) = JNum (5764607523034235 / 576460752303423488)"
  "toDouble 5 = JNum 5"
  "jsAdd (toDouble (1 / 10)) (toDouble (2 / 10)) = JNum (1351079888211149 / 4503599627370496)"
  "parseFloatDouble ''Infinity'' = JPosInf"
  "parseFloatDouble ''-Infinity'' = JNegInf"
  "parseFloatDouble ''abc'' = JNaN"
  by code_simp+














section \<open>Properties of the transfer ledger\<close>

text \<open>
  Claim C10. The claim has a day \<open>YYYY-MM-DD\<close> written as noon UTC of that day and read
  back as the same day. \<open>transferToDb\<close> matches the day with three capture groups and
  takes \<open>dateMatch[1]\<close>, which is the year alone, where its comments announce the whole
  day: 15 March 2024 is written as \<open>2024T12:00:00.000Z\<close>, not as
  \<open>2024-03-15T12:00:00.000Z\<close>. Every day of a year is written as the same text, so no
  reader, in any time zone, can give back both 15 March and 20 July.
\<close>

theorem transferToDb_keeps_year_only:
  "t_data_envio (transferToDb (transferOn ''2024-03-15'')) = Some ''2024T12:00:00.000Z''
   \<and> noonUtcSpec ''2024-03-15'' = Some ''2024-03-15T12:00:00.000Z''
   \<and> t_data_envio (transferToDb (transferOn ''2024-07-20'')) = Some ''2024T12:00:00.000Z''
   \<and> normalizeDate engine (t_data_envio (transferToDb (transferOn ''2024-03-15'')))
       = normalizeDate engine (t_data_envio (transferToDb (transferOn ''2024-07-20'')))"
  by (simp add: transferToDb_def transferOn_def matchIsoDayPrefix_def isIsoDay_def isDigit_def
      trim_def isWhite_def noonUtcSpec_def)

lemma maybeSingle_Some: "maybeSingle xs = Some x \<longleftrightarrow> xs = [x]"
  by (simp add: maybeSingle_def split: list.splits)

lemma t_id_updatedRow [simp]: "t_id (updatedRow c r) = t_id r"
  by (simp add: updatedRow_def)

lemma t_status_updatedRow [simp]: "t_status (updatedRow c r) = t_status c"
  by (simp add: updatedRow_def)

lemma map_t_id_update:
  "map t_id (map (\<lambda>r. if t_id r = i then updatedRow c r else r) ledger) = map t_id ledger"
  by (induction ledger) simp_all

lemma updateTransfer_cases:
  "snd (updateTransfer env i u ledger) = ledger
   \<or> (\<exists>current. getTransferById env i ledger = Some current
        \<and> snd (updateTransfer env i u ledger)
            = map (\<lambda>r. if t_id r = i then updatedRow (transferToDb (mergeUpdates current u)) r else r)
                ledger)"
proof (cases "getTransferById env i ledger")
  case None
  then show ?thesis by (simp add: updateTransfer_def)
next
  case (Some current)
  show ?thesis
  proof (cases "transferWriteError env (transferToDb (mergeUpdates current u))")
    case None
    with Some show ?thesis by (simp add: updateTransfer_def Let_def)
  next
    case (Some e)
    with \<open>getTransferById env i ledger = Some current\<close> show ?thesis
      by (simp add: updateTransfer_def Let_def)
  qed
qed

lemma updateTransfer_ids: "map t_id (snd (updateTransfer env i u ledger)) = map t_id ledger"
proof -
  consider (same) "snd (updateTransfer env i u ledger) = ledger"
    | (upd) current where
        "snd (updateTransfer env i u ledger)
           = map (\<lambda>r. if t_id r = i then updatedRow (transferToDb (mergeUpdates current u)) r else r)
               ledger"
    using updateTransfer_cases [of env i u ledger] by blast
  then show ?thesis
  proof cases
    case same
    then show ?thesis by simp
  next
    case upd
    show ?thesis unfolding upd by (rule map_t_id_update)
  qed
qed

lemma orDefault_Some_orDefault:
  "d \<noteq> [] \<Longrightarrow> orDefault (Some (orDefault x d)) d = orDefault x d"
  by (simp add: orDefault_def orNull_def split: option.splits)

lemma t_status_transferToDb:
  "t_status (transferToDb t) = Some (orDefault (Some (status t)) ''pendente'')"
  by (simp add: transferToDb_def Let_def)

lemma status_mergeUpdates: "u_status u = None \<Longrightarrow> status (mergeUpdates t u) = status t"
  by (simp add: mergeUpdates_def)

lemma status_dbToTransfer: "status (dbToTransfer l n r) = orDefault (t_status r) ''pendente''"
  by (simp add: dbToTransfer_def)

lemma getTransferById_Some:
  assumes "getTransferById env i ledger = Some current"
  shows "\<exists>r. filter (\<lambda>r. t_id r = i) ledger = [r]
             \<and> current = dbToTransfer (engineLocalDay env) (isoNow env) r"
  using assms
  by (simp add: getTransferById_def maybeSingle_Some split: option.splits) blast

lemma filter_singleton_unique:
  assumes "filter P xs = [r]" "x \<in> set xs" "P x"
  shows "x = r"
proof -
  have "x \<in> set (filter P xs)" using assms(2,3) by simp
  then show ?thesis using assms(1) by simp
qed

lemma updateTransfer_status:
  assumes "u_status u = None"
  shows "map (\<lambda>r. orDefault (t_status r) ''pendente'') (snd (updateTransfer env i u ledger))
         = map (\<lambda>r. orDefault (t_status r) ''pendente'') ledger"
proof -
  consider (same) "snd (updateTransfer env i u ledger) = ledger"
    | (upd) current where "getTransferById env i ledger = Some current"
        "snd (updateTransfer env i u ledger)
           = map (\<lambda>r. if t_id r = i then updatedRow (transferToDb (mergeUpdates current u)) r else r)
               ledger"
    using updateTransfer_cases [of env i u ledger] by blast
  then show ?thesis
  proof cases
    case same
    then show ?thesis by simp
  next
    case upd
    obtain r where r: "filter (\<lambda>r. t_id r = i) ledger = [r]"
      and cur: "current = dbToTransfer (engineLocalDay env) (isoNow env) r"
      using getTransferById_Some [OF upd(1)] by blast
    let ?c = "transferToDb (mergeUpdates current u)"
    have new: "orDefault (t_status ?c) ''pendente'' = orDefault (t_status r) ''pendente''"
      unfolding t_status_transferToDb status_mergeUpdates [OF assms] cur status_dbToTransfer
      by (simp add: orDefault_Some_orDefault)
    have "\<And>x. x \<in> set ledger \<Longrightarrow>
            orDefault (t_status (if t_id x = i then updatedRow ?c x else x)) ''pendente''
            = orDefault (t_status x) ''pendente''"
    proof -
      fix x assume x: "x \<in> set ledger"
      show "orDefault (t_status (if t_id x = i then updatedRow ?c x else x)) ''pendente''
            = orDefault (t_status x) ''pendente''"
      proof (cases "t_id x = i")
        case True
        then have "x = r" using filter_singleton_unique [OF r x] by simp
        then show ?thesis using True new by simp
      next
        case False
        then show ?thesis by simp
      qed
    qed
    then show ?thesis unfolding upd(2) by (simp add: comp_def)
  qed
qed
lemma reconcile_cases:
  assumes ok: "createTransferFromSpreadsheet env sp ledger = Inr ledger'"
  shows "ledger' = ledger
         \<or> (\<exists>ex u. existingTransferFor env sp ledger = Some ex \<and> u_status u = None
               \<and> ledger' = snd (updateTransfer env (transferId ex) u ledger))
         \<or> (\<exists>t p. existingTransferFor env sp ledger = None
               \<and> createTransfer env t ledger = Inr (p, ledger'))"
proof -
  let ?cv = "getCustomerCardValues env (customerId sp) (terminalId sp) (referenceMonth sp)
               (referenceDate sp) (sheetTypeOrMonthly (stype sp))"
  obtain cv where cv: "?cv = Inr cv"
    using ok by (cases ?cv) (simp_all add: createTransferFromSpreadsheet_def)
  obtain tax where tax: "getCustomerTax env (customerId sp) = Inr tax"
    using ok cv by (cases "getCustomerTax env (customerId sp)")
      (simp_all add: createTransferFromSpreadsheet_def)
  obtain bruto fee liquido where
    am: "transferAmounts cv (calculateSpreadsheetMetrics tax sp) = (bruto, fee, liquido)"
    by (cases "transferAmounts cv (calculateSpreadsheetMetrics tax sp)") auto
  show ?thesis
  proof (cases "existingTransferFor env sp ledger")
    case (Some ex)
    show ?thesis
    proof (cases "0 < bruto")
      case True
      have "ledger' = snd (updateTransfer env (transferId ex)
              \<lparr> u_valorBruto = Some bruto, u_taxas = Some fee, u_valorLiquido = Some liquido,
                u_status = None, u_dataEnvio = None \<rparr> ledger)"
        using ok cv tax am Some True by (simp add: createTransferFromSpreadsheet_def)
      moreover have "u_status \<lparr> u_valorBruto = Some bruto, u_taxas = Some fee,
                u_valorLiquido = Some liquido, u_status = None, u_dataEnvio = None \<rparr> = None"
        by simp
      ultimately show ?thesis using Some by blast
    next
      case False
      have "ledger' = ledger"
        using ok cv tax am Some False by (simp add: createTransferFromSpreadsheet_def)
      then show ?thesis by simp
    qed
  next
    case None
    show ?thesis
    proof (cases "bruto \<le> 0")
      case True
      have "ledger' = ledger"
        using ok cv tax am None True by (simp add: createTransferFromSpreadsheet_def)
      then show ?thesis by simp
    next
      case False
      obtain customers where cs: "getCustomers env = Inr customers"
        using ok cv tax am None False by (cases "getCustomers env")
          (simp_all add: createTransferFromSpreadsheet_def)
      let ?t = "\<lparr> transferId = [], periodo = periodoParaBusca env sp,
                  valorBruto = bruto, taxas = fee, valorLiquido = liquido,
                  status = ''pendente'', dataEnvio = dataEnvioDaPlanilha env sp,
                  transferCustomerId = Some (customerId sp),
                  transferCustomerName = Some (orDefault (map_of customers (customerId sp)) []),
                  createdAt = [] \<rparr>"
      obtain p where "createTransfer env ?t ledger = Inr (p, ledger')"
        using ok cv tax am None False cs
        by (cases "createTransfer env ?t ledger")
           (auto simp add: createTransferFromSpreadsheet_def)
      then show ?thesis using None by blast
    qed
  qed
qed

lemma createTransfer_appends:
  "createTransfer env t ledger = Inr (p, ledger') \<Longrightarrow> \<exists>r. ledger' = ledger @ [r]"
  by (cases "transferWriteError env (transferToDb t)")
     (auto simp: createTransfer_def Let_def split: if_splits)

text \<open>What of claim C2 the reconciler does keep: it never adds an entry for a customer
  and period that has one, it adds at most one entry otherwise, and an update leaves
  every entry's id and status as they read before.\<close>

lemma reconcile_existing_adds_nothing:
  assumes "existingTransferFor env sp ledger = Some ex"
    and "createTransferFromSpreadsheet env sp ledger = Inr ledger'"
  shows "map t_id ledger' = map t_id ledger"
    and "map (\<lambda>r. orDefault (t_status r) ''pendente'') ledger'
         = map (\<lambda>r. orDefault (t_status r) ''pendente'') ledger"
  using reconcile_cases [OF assms(2)] assms(1) updateTransfer_ids updateTransfer_status
  by auto

lemma reconcile_adds_at_most_one:
  assumes "createTransferFromSpreadsheet env sp ledger = Inr ledger'"
  shows "map t_id ledger' = map t_id ledger
         \<or> (existingTransferFor env sp ledger = None \<and> (\<exists>r. ledger' = ledger @ [r]))"
  using reconcile_cases [OF assms] updateTransfer_ids createTransfer_appends
  by (metis (no_types, lifting))

text \<open>
  Claim C2. An entry for the customer and period exists, sent on 2024-03-15 with status
  \<open>enviado\<close>. Reconciling the day's sheet adds no entry, sets the three amounts and
  keeps the status, but \<open>updateTransfer\<close> writes every column back through
  \<open>transferToDb\<close>, and the day sent becomes \<open>2024T12:00:00.000Z\<close>: the defect of
  claim C10, met on the path whose comment reads \<open>Manter periodo, status e data de envio
  existentes\<close>.
\<close>

theorem reconcile_rewrites_sent_date:
  "createTransferFromSpreadsheet quietEnv marchSheet [marchEntry]
   = Inr [marchEntry\<lparr> t_valor_bruto := 100, t_taxas := 51 / 10, t_valor_liquido := 949 / 10,
                       t_data_envio := Some ''2024T12:00:00.000Z'' \<rparr>]"
  by code_simp

text \<open>On a ledger that refuses the year-only text, the same run updates nothing: the
  amounts stay at their old values.\<close>

lemma reconcile_on_strict_ledger_updates_nothing:
  "createTransferFromSpreadsheet strictLedgerEnv marchSheet [marchEntry] = Inr [marchEntry]"
  by code_simp

section \<open>Properties of \<open>saveSpreadsheet\<close>\<close>

text \<open>With a terminal, a monthly save on a store that holds one snapshot of the key
  (and unique ids) leaves one snapshot of the key.\<close>

lemma monthly_save_with_terminal_replaces:
  assumes t: "orNull (terminalId sheet) = Some t"
    and m: "sheetTypeOrMonthly (stype sheet) = Monthly"
    and sel: "snapshotSelectError env = None"
    and ids: "distinct (map s_id store)"
    and one: "monthlyCount (customerId sheet) (Some t) (referenceMonth sheet) store = 1"
    and ok: "persistSnapshot env sheet store = Inr store'"
  shows "monthlyCount (customerId sheet) (Some t) (referenceMonth sheet) store' = 1"
proof -
  let ?P = "\<lambda>r. s_customer_id r = customerId sheet \<and> s_terminal_id r = Some t
                 \<and> s_reference_month r = referenceMonth sheet \<and> s_type r = Monthly"
  let ?d = "spreadsheetToDb sheet"
  have len: "length (filter ?P store) = 1" using one by (simp add: monthlyCount_def)
  then obtain ex where ex: "filter ?P store = [ex]"
    by (cases "filter ?P store") auto
  have exin: "ex \<in> set store" and Pex: "?P ex"
  proof -
    have "ex \<in> set (filter ?P store)" using ex by simp
    then show "ex \<in> set store" and "?P ex" by auto
  qed
  have look: "existingMonthly env sheet store = Some ex"
    using sel t ex by (simp add: existingMonthly_def eqFilter_def maybeSingle_def)
  have Pd: "?P ?d" using t m by (simp add: spreadsheetToDb_def)
  let ?f = "\<lambda>r. if s_id r = s_id ex then ?d else r"
  have store': "store' = map ?f store"
    using ok look m by (auto simp: persistSnapshot_def Let_def split: option.splits)
  have inj: "inj_on s_id (set store)" using ids by (simp add: distinct_map)
  have same: "\<And>r. r \<in> set store \<Longrightarrow> ?P (?f r) = ?P r"
  proof -
    fix r assume r: "r \<in> set store"
    show "?P (?f r) = ?P r"
    proof (cases "s_id r = s_id ex")
      case True
      then have "r = ex" using inj r exin by (auto dest: inj_onD)
      then show ?thesis using True Pd Pex by simp
    next
      case False
      then show ?thesis by simp
    qed
  qed
  have "filter ?P (map ?f store) = map ?f (filter (\<lambda>r. ?P (?f r)) store)"
    by (simp add: filter_map comp_def)
  also have "filter (\<lambda>r. ?P (?f r)) store = filter ?P store"
    using same by (intro filter_cong) auto
  finally have "length (filter ?P (map ?f store)) = 1" using len by simp
  then show ?thesis using store' by (simp add: monthlyCount_def)
qed

text \<open>
  Claim C3. Without a terminal the lookup is \<open>.eq('terminal_id', null)\<close>, which selects
  no row whose \<open>terminal_id\<close> is \<open>NULL\<close>; the snapshot of May 2024 already in the store
  is not found and the save inserts a second one for the same customer, no terminal and
  month.
\<close>

theorem monthly_save_without_terminal_duplicates:
  "monthlyCount ''c1'' None ''2024-05'' [mayRow] = 1
   \<and> map_sum id (\<lambda>st. monthlyCount ''c1'' None ''2024-05'' (fst st))
        (saveSpreadsheet quietEnv maySheet ([mayRow], [])) = Inr 2"
  by code_simp

text \<open>
  Claim C9. Once the snapshot is built and written, \<open>saveSpreadsheet\<close> returns normally
  whatever the reconciler does: when the reconciler throws, the save returns the written
  store and the ledger as it was. A save fails only with the error of building or
  writing the snapshot.
\<close>

theorem saveSpreadsheet_swallows_reconcile_errors:
  "(spreadsheetToSave env sp = Inr sheet \<and> persistSnapshot env sheet store = Inr store'
      \<longrightarrow> (\<exists>ledger'. saveSpreadsheet env sp (store, ledger) = Inr (store', ledger'))
          \<and> (createTransferFromSpreadsheet env sheet ledger = Inl e
                \<longrightarrow> saveSpreadsheet env sp (store, ledger) = Inr (store', ledger)))
   \<and> (saveSpreadsheet env sp (store, ledger) = Inl e'
      \<longrightarrow> spreadsheetToSave env sp = Inl e'
          \<or> (\<exists>sheet'. spreadsheetToSave env sp = Inr sheet'
                \<and> persistSnapshot env sheet' store = Inl e'))"
  by (auto simp: saveSpreadsheet_def split: sum.splits)

theorem saveSpreadsheet_swallows_reconcile_errors_witness:
  "createTransferFromSpreadsheet ledgerDownEnv marchSaved []
     = Inl (SupabaseError ''transfers unavailable'')
   \<and> saveSpreadsheet ledgerDownEnv marchSheet ([], []) = Inr ([spreadsheetToDb marchSaved], [])
   \<and> createTransferFromSpreadsheet taxDownEnv marchSaved []
     = Inl (ServiceError ''customer tax unavailable'')
   \<and> saveSpreadsheet taxDownEnv marchSheet ([], []) = Inr ([spreadsheetToDb marchSaved], [])"
proof -
  have a1: "spreadsheetToSave ledgerDownEnv marchSheet = Inr marchSaved"
    and a2: "spreadsheetToSave taxDownEnv marchSheet = Inr marchSaved"
    by code_simp+
  have b1: "persistSnapshot ledgerDownEnv marchSaved [] = Inr [spreadsheetToDb marchSaved]"
    and b2: "persistSnapshot taxDownEnv marchSaved [] = Inr [spreadsheetToDb marchSaved]"
    by code_simp+
  have c1: "createTransferFromSpreadsheet ledgerDownEnv marchSaved []
            = Inl (SupabaseError ''transfers unavailable'')"
    and c2: "createTransferFromSpreadsheet taxDownEnv marchSaved []
            = Inl (ServiceError ''customer tax unavailable'')"
    by code_simp+
  have d1: "saveSpreadsheet ledgerDownEnv marchSheet ([], []) = Inr ([spreadsheetToDb marchSaved], [])"
    using saveSpreadsheet_swallows_reconcile_errors
      [of ledgerDownEnv marchSheet marchSaved "[]" "[spreadsheetToDb marchSaved]" "[]"
          "SupabaseError ''transfers unavailable''"] a1 b1 c1
    by blast
  have d2: "saveSpreadsheet taxDownEnv marchSheet ([], []) = Inr ([spreadsheetToDb marchSaved], [])"
    using saveSpreadsheet_swallows_reconcile_errors
      [of taxDownEnv marchSheet marchSaved "[]" "[spreadsheetToDb marchSaved]" "[]"
          "ServiceError ''customer tax unavailable''"] a2 b2 c2
    by blast
  show ?thesis using c1 c2 d1 d2 by blast
qed

section \<open>Properties of the selection state\<close>

lemma storeMonths_keeps [simp]:
  "selectedMonth (storeMonths cap ms st) = selectedMonth st"
  "selectedDay (storeMonths cap ms st) = selectedDay st"
  "hasUserInteractedRef (storeMonths cap ms st) = hasUserInteractedRef st"
  "lockSelectionRef (storeMonths cap ms st) = lockSelectionRef st"
  "isInitialLoadRef (storeMonths cap ms st) = isInitialLoadRef st"
  "userSelectedDayRef (storeMonths cap ms st) = userSelectedDayRef st"
  by (simp_all add: storeMonths_def)

lemma storeDays_keeps [simp]:
  "selectedMonth (storeDays cap ds st) = selectedMonth st"
  "selectedDay (storeDays cap ds st) = selectedDay st"
  "hasUserInteractedRef (storeDays cap ds st) = hasUserInteractedRef st"
  by (simp_all add: storeDays_def)

lemma updateSpreadsheetData_keeps [simp]:
  "selectedMonth (updateSpreadsheetData d st) = selectedMonth st"
  "selectedDay (updateSpreadsheetData d st) = selectedDay st"
  "hasUserInteractedRef (updateSpreadsheetData d st) = hasUserInteractedRef st"
  by (simp_all add: updateSpreadsheetData_def)

lemma clearDays_interacted [simp]: "hasUserInteractedRef st \<Longrightarrow> clearDays st = st"
  by (simp add: clearDays_def)

lemma autoSelectMonth_interacted [simp]:
  "hasUserInteractedRef st \<Longrightarrow> autoSelectMonth cap ms st = st"
  by (simp add: autoSelectMonth_def)

lemma monthsEffect_interacted:
  assumes "hasUserInteractedRef st"
  shows "selectedMonth (monthsEffect cap ms st) = selectedMonth st
         \<and> selectedDay (monthsEffect cap ms st) = selectedDay st
         \<and> hasUserInteractedRef (monthsEffect cap ms st)"
proof -
  have a: "hasUserInteractedRef (storeMonths cap ms (st\<lparr> monthsLoadedRef := True \<rparr>))"
    using assms by simp
  show ?thesis
    using assms a by (simp add: monthsEffect_def Let_def)
qed

lemma daysEffect_interacted:
  assumes "hasUserInteractedRef st"
  shows "selectedMonth (daysEffect cap mo ds st) = selectedMonth st
         \<and> selectedDay (daysEffect cap mo ds st) = selectedDay st
         \<and> hasUserInteractedRef (daysEffect cap mo ds st)"
  using assms by (simp add: daysEffect_def)

lemma monthlySnapshotEffect_keeps:
  "selectedMonth (monthlySnapshotEffect cap d st) = selectedMonth st
   \<and> selectedDay (monthlySnapshotEffect cap d st) = selectedDay st
   \<and> hasUserInteractedRef (monthlySnapshotEffect cap d st) = hasUserInteractedRef st"
  by (simp add: monthlySnapshotEffect_def)

lemma dailySnapshotEffect_keeps:
  "selectedMonth (dailySnapshotEffect cap mo d st) = selectedMonth st
   \<and> selectedDay (dailySnapshotEffect cap mo d st) = selectedDay st
   \<and> hasUserInteractedRef (dailySnapshotEffect cap mo d st) = hasUserInteractedRef st"
  by (simp add: dailySnapshotEffect_def split: option.splits)

lemma applyRefresh_interacted:
  assumes "hasUserInteractedRef st"
  shows "selectedMonth (applyRefresh st ev) = selectedMonth st
         \<and> selectedDay (applyRefresh st ev) = selectedDay st
         \<and> hasUserInteractedRef (applyRefresh st ev)"
proof (cases ev)
  case (MonthsLoaded cap ms)
  then show ?thesis using monthsEffect_interacted [OF assms] by simp
next
  case (DaysLoaded cap mo ds)
  then show ?thesis using daysEffect_interacted [OF assms] by simp
next
  case (MonthlySnapshotLoaded cap d)
  then show ?thesis using monthlySnapshotEffect_keeps [of cap d st] assms by simp
next
  case (DailySnapshotLoaded cap mo d)
  then show ?thesis using dailySnapshotEffect_keeps [of cap mo d st] assms by simp
qed

lemma userSelect_interacted: "hasUserInteractedRef (userSelect a st)"
  by (cases a) simp_all

lemma refreshCycles_interacted:
  "hasUserInteractedRef st \<Longrightarrow>
   selectedMonth (refreshCycles evs st) = selectedMonth st
   \<and> selectedDay (refreshCycles evs st) = selectedDay st
   \<and> hasUserInteractedRef (refreshCycles evs st)"
proof (induction evs arbitrary: st)
  case Nil
  then show ?case by (simp add: refreshCycles_def)
next
  case (Cons ev evs)
  have step: "selectedMonth (applyRefresh st ev) = selectedMonth st
              \<and> selectedDay (applyRefresh st ev) = selectedDay st
              \<and> hasUserInteractedRef (applyRefresh st ev)"
    using applyRefresh_interacted [OF Cons.prems] .
  have "refreshCycles (ev # evs) st = refreshCycles evs (applyRefresh st ev)"
    by (simp add: refreshCycles_def)
  then show ?case using Cons.IH [of "applyRefresh st ev"] step by simp
qed

text \<open>
  Claim C1. Every selection of the operator (month or day, by selector or button) sets
  \<open>hasUserInteractedRef\<close>; and from any state in which it is set, any number of refresh
  cycles, of the month list, the day list or the snapshot, with any fetched content and
  started from any earlier closure, leaves the selected month and the selected day as
  they were (and the flag set).
\<close>

theorem user_selection_survives_refresh:
  "hasUserInteractedRef (userSelect a st0)
   \<and> (hasUserInteractedRef st
        \<longrightarrow> selectedMonth (refreshCycles evs st) = selectedMonth st
            \<and> selectedDay (refreshCycles evs st) = selectedDay st
            \<and> hasUserInteractedRef (refreshCycles evs st))"
  using userSelect_interacted [of a st0] refreshCycles_interacted [of st evs] by blast

theorem user_selection_survives_refresh_witness:
  "length tenCycles = 10
   \<and> selectedMonth mayView = ''2024-05''
   \<and> selectedMonth (refreshCycles tenCycles mayView) = ''2024-05''
   \<and> selectedDay (refreshCycles tenCycles mayView) = selectedDay mayView"
proof -
  have u: "hasUserInteractedRef mayView"
    using user_selection_survives_refresh [of "SelectMonthMonthly ''2024-05'' None" loadedView
        mayView tenCycles]
    by (simp add: mayView_def)
  have m: "selectedMonth mayView = ''2024-05''" by (simp add: mayView_def)
  have "selectedMonth (refreshCycles tenCycles mayView) = selectedMonth mayView
        \<and> selectedDay (refreshCycles tenCycles mayView) = selectedDay mayView"
    using user_selection_survives_refresh [of "SelectMonthMonthly ''2024-05'' None" loadedView
        mayView tenCycles] u
    by blast
  then show ?thesis using m by (simp add: tenCycles_def)
qed

lemma set_insertAsc: "set (insertAsc x ys) = insert x (set ys)"
  by (induction ys) auto

lemma set_sortAsc: "set (sortAsc xs) = set xs"
  by (induction xs) (simp_all add: sortAsc_def set_insertAsc)

lemma hd_sortAsc_in: "xs \<noteq> [] \<Longrightarrow> hd (sortAsc xs) \<in> set xs"
proof -
  assume "xs \<noteq> []"
  then have "sortAsc xs \<noteq> []" using set_sortAsc [of xs] by (metis set_empty)
  then have "hd (sortAsc xs) \<in> set (sortAsc xs)" by simp
  then show ?thesis by (simp add: set_sortAsc)
qed

lemma view_loaded:
  "selectedMonth loadedView = ''2024-04''" "hasUserInteractedRef loadedView = False"
  "lockSelectionRef loadedView = False" "isInitialLoadRef loadedView = False"
  by code_simp+

text \<open>
  Claim C6, as stated, against the code. A view has loaded May and April and selected a
  month by itself; the operator has not touched it. The type is switched to daily and the
  month list is loaded again: no month is selected. The same holds after the operator
  chose a month. The type switch clears the keys but resets no ref, and the automatic
  selection asks for \<open>isInitialLoadRef\<close>, which the first selection cleared.
\<close>

theorem type_switch_no_reselect_counterexample:
  "hasUserInteractedRef loadedView = False
   \<and> selectedMonth (monthsEffect (onTypeChange Daily loadedView) [''2024-05'', ''2024-04'']
                      (onTypeChange Daily loadedView)) = []
   \<and> selectedMonth (monthsEffect (onTypeChange Daily mayView) [''2024-05'', ''2024-04'']
                      (onTypeChange Daily mayView)) = []"
  by code_simp

text \<open>What a load of the month list does to the selected month, whatever the closure it
  started with and the state it meets.\<close>

lemma monthsEffect_selects:
  assumes "months \<noteq> []" "selectedMonth cap = []"
    "\<not> hasUserInteractedRef cap" "\<not> lockSelectionRef cap"
    "\<not> hasUserInteractedRef s" "\<not> lockSelectionRef s" "isInitialLoadRef s"
  shows "selectedMonth (monthsEffect cap months s) \<in> set months
         \<and> \<not> isInitialLoadRef (monthsEffect cap months s)"
  using assms hd_sortAsc_in [of months]
  by (simp add: monthsEffect_def Let_def autoSelectMonth_def clearDays_def storeMonths_def)

lemma monthsEffect_leaves:
  assumes "\<not> (months \<noteq> [] \<and> selectedMonth cap = []
              \<and> \<not> hasUserInteractedRef cap \<and> \<not> lockSelectionRef cap
              \<and> \<not> hasUserInteractedRef s \<and> \<not> lockSelectionRef s \<and> isInitialLoadRef s)"
  shows "selectedMonth (monthsEffect cap months s) = selectedMonth s"
  using assms
  by (auto simp add: monthsEffect_def Let_def autoSelectMonth_def clearDays_def storeMonths_def)

lemma type_and_context_changes:
  "sameRefs (onTypeChange t st) st"
  "spreadsheetType (onTypeChange t st) = t"
  "selectedMonth (onTypeChange t st) = []"
  "selectedDay (onTypeChange t st) = []"
  "sameRefs (onPreviewTypeChange t st) st"
  "spreadsheetType (onPreviewTypeChange t st) = t"
  "selectedMonth (onPreviewTypeChange t st) = selectedMonth st"
  "selectedDay (onPreviewTypeChange t st) = selectedDay st"
  "sameRefs (onContextChange c tm st) st"
  "spreadsheetType (onContextChange c tm st) = spreadsheetType st"
  "selectedMonth (onContextChange c tm st) = selectedMonth st"
  "selectedDay (onContextChange c tm st) = selectedDay st"
  by (simp_all add: sameRefs_def onTypeChange_def onPreviewTypeChange_def onContextChange_def)

lemma handleConfirmSave_changes:
  "sameRefs (handleConfirmSave cap pv sm fd ds ms st) st"
  "spreadsheetType (handleConfirmSave cap pv sm fd ds ms st)
     = (if spreadsheetType cap = Daily then spreadsheetType st else Monthly)"
  "selectedMonth (handleConfirmSave cap pv sm fd ds ms st)
     = (if sm \<in> set ms then sm else if ms \<noteq> [] then hd ms else selectedMonth st)"
  by (simp_all add: sameRefs_def handleConfirmSave_def Let_def)

text \<open>
  Claim C6, amended. Inside one open view no change of type and no change of customer or
  terminal resets the selection state: each leaves every ref as it is. The type selector
  of the header clears the selected month and day; the type selector of the upload
  preview and a change of customer or terminal leave both as they are; the save handler,
  which sets the type to monthly after a monthly save and leaves it after a daily one,
  selects the saved month when the loaded list has it, and otherwise the first loaded
  month or, with nothing loaded, the month that was selected. Whichever came first, a load
  of the month list selects a
  month of that list only when the list is not empty, no month was selected when the load
  started, the operator has made no selection (and the selection is not locked) either
  when the load started or when its answer arrives, and no automatic selection has
  happened in this view before (\<open>isInitialLoadRef\<close>); in every other case it leaves the
  selected month as it was.
\<close>

theorem switch_then_load:
  "sameRefs (onTypeChange t st) st
   \<and> spreadsheetType (onTypeChange t st) = t
   \<and> selectedMonth (onTypeChange t st) = [] \<and> selectedDay (onTypeChange t st) = []
   \<and> sameRefs (onPreviewTypeChange t st) st
   \<and> spreadsheetType (onPreviewTypeChange t st) = t
   \<and> selectedMonth (onPreviewTypeChange t st) = selectedMonth st
   \<and> selectedDay (onPreviewTypeChange t st) = selectedDay st
   \<and> sameRefs (onContextChange c tm st) st
   \<and> spreadsheetType (onContextChange c tm st) = spreadsheetType st
   \<and> selectedMonth (onContextChange c tm st) = selectedMonth st
   \<and> selectedDay (onContextChange c tm st) = selectedDay st
   \<and> sameRefs (handleConfirmSave cap0 pv sm fd ds ms st) st
   \<and> spreadsheetType (handleConfirmSave cap0 pv sm fd ds ms st)
       = (if spreadsheetType cap0 = Daily then spreadsheetType st else Monthly)
   \<and> selectedMonth (handleConfirmSave cap0 pv sm fd ds ms st)
       = (if sm \<in> set ms then sm else if ms \<noteq> [] then hd ms else selectedMonth st)
   \<and> (months \<noteq> [] \<and> selectedMonth cap = []
        \<and> \<not> hasUserInteractedRef cap \<and> \<not> lockSelectionRef cap
        \<and> \<not> hasUserInteractedRef s \<and> \<not> lockSelectionRef s \<and> isInitialLoadRef s
        \<longrightarrow> selectedMonth (monthsEffect cap months s) \<in> set months
            \<and> \<not> isInitialLoadRef (monthsEffect cap months s))
   \<and> (\<not> (months \<noteq> [] \<and> selectedMonth cap = []
           \<and> \<not> hasUserInteractedRef cap \<and> \<not> lockSelectionRef cap
           \<and> \<not> hasUserInteractedRef s \<and> \<not> lockSelectionRef s \<and> isInitialLoadRef s)
        \<longrightarrow> selectedMonth (monthsEffect cap months s) = selectedMonth s)"
proof -
  have a: "sameRefs (onTypeChange t st) st \<and> spreadsheetType (onTypeChange t st) = t
           \<and> selectedMonth (onTypeChange t st) = [] \<and> selectedDay (onTypeChange t st) = []"
    by (simp add: type_and_context_changes)
  have b: "sameRefs (onPreviewTypeChange t st) st \<and> spreadsheetType (onPreviewTypeChange t st) = t
           \<and> selectedMonth (onPreviewTypeChange t st) = selectedMonth st
           \<and> selectedDay (onPreviewTypeChange t st) = selectedDay st"
    by (simp add: type_and_context_changes)
  have c: "sameRefs (onContextChange c tm st) st
           \<and> spreadsheetType (onContextChange c tm st) = spreadsheetType st
           \<and> selectedMonth (onContextChange c tm st) = selectedMonth st
           \<and> selectedDay (onContextChange c tm st) = selectedDay st"
    by (simp add: type_and_context_changes)
  have d: "sameRefs (handleConfirmSave cap0 pv sm fd ds ms st) st
           \<and> spreadsheetType (handleConfirmSave cap0 pv sm fd ds ms st)
               = (if spreadsheetType cap0 = Daily then spreadsheetType st else Monthly)
           \<and> selectedMonth (handleConfirmSave cap0 pv sm fd ds ms st)
               = (if sm \<in> set ms then sm else if ms \<noteq> [] then hd ms else selectedMonth st)"
    using handleConfirmSave_changes [of cap0 pv sm fd ds ms st] by blast
  show ?thesis
    using a b c d monthsEffect_selects [of months cap s] monthsEffect_leaves [of months cap s]
    by blast
qed

text \<open>
  The theorem at work. In a fresh view switched to daily by the header selector, the
  first load selects a month of the list. In the view that has already selected April by
  itself: after the header selector the month stays empty; after the preview selector,
  and after a change to customer \<open>c2\<close> whose only month is September, the month stays
  April, which the new list does not hold.
\<close>

theorem switch_then_load_witness:
  "selectedMonth (monthsEffect (onTypeChange Daily initialView) [''2024-05'', ''2024-04'']
                    (onTypeChange Daily initialView)) \<in> set [''2024-05'', ''2024-04'']
   \<and> selectedMonth (monthsEffect (onTypeChange Daily loadedView) [''2024-05'', ''2024-04'']
                      (onTypeChange Daily loadedView)) = []
   \<and> selectedMonth (monthsEffect (onPreviewTypeChange Daily loadedView) [''2024-05'', ''2024-04'']
                      (onPreviewTypeChange Daily loadedView)) = ''2024-04''
   \<and> selectedMonth (monthsEffect (onContextChange ''c2'' None loadedView) [''2024-09'']
                      (onContextChange ''c2'' None loadedView)) = ''2024-04''"
proof -
  let ?ms = "[''2024-05'', ''2024-04'']"
  let ?a = "onTypeChange Daily initialView"
  let ?b = "onTypeChange Daily loadedView"
  let ?c = "onPreviewTypeChange Daily loadedView"
  let ?d = "onContextChange ''c2'' None loadedView"
  have i: "selectedMonth ?a = []" "\<not> hasUserInteractedRef ?a" "\<not> lockSelectionRef ?a"
    "isInitialLoadRef ?a"
    by (simp_all add: initialView_def onTypeChange_def)
  have a: "selectedMonth (monthsEffect ?a ?ms ?a) \<in> set ?ms"
    using switch_then_load [where st = initialView and months = ?ms and cap = ?a and s = ?a] i by blast
  have nb: "\<not> isInitialLoadRef ?b" "selectedMonth ?b = []"
    using view_loaded(4) by (simp_all add: onTypeChange_def)
  have b: "selectedMonth (monthsEffect ?b ?ms ?b) = []"
    using switch_then_load [where st = loadedView and months = ?ms and cap = ?b and s = ?b] nb by metis
  have nc: "\<not> isInitialLoadRef ?c" "selectedMonth ?c = ''2024-04''"
    using view_loaded(1,4) by (simp_all add: onPreviewTypeChange_def)
  have c: "selectedMonth (monthsEffect ?c ?ms ?c) = ''2024-04''"
    using switch_then_load [where st = loadedView and months = ?ms and cap = ?c and s = ?c] nc by metis
  have nd: "\<not> isInitialLoadRef ?d" "selectedMonth ?d = ''2024-04''"
    using view_loaded(1,4) by (simp_all add: onContextChange_def)
  have d: "selectedMonth (monthsEffect ?d [''2024-09''] ?d) = ''2024-04''"
    using switch_then_load [where st = loadedView and months = "[''2024-09'']" and cap = ?d and s = ?d] nd
    by metis
  show ?thesis using a b c d by blast
qed

end
